theory Spec2Isabelle
  imports Complex_Main
begin

section \<open>Strings and numbers of the host language\<close>

text \<open>
  A string of the program is modelled as a list of 8-bit code units: the strings whose
  UTF-16 code units all lie below 256. On these the definitions below compute what the
  built-in string operations compute.
\<close>

text \<open>The line terminators of the regular-expression dot (the ones below 256).\<close>

definition isLineTerminator :: "char \<Rightarrow> bool" where
  "isLineTerminator c \<longleftrightarrow> c = CHR 0x0A \<or> c = CHR 0x0D"

text \<open>What \<^verbatim>\<open>String.prototype.trim\<close> strips: white space and line terminators.\<close>

definition isWhiteSpace :: "char \<Rightarrow> bool" where
  "isWhiteSpace c \<longleftrightarrow>
     c = CHR 0x09 \<or> c = CHR 0x0A \<or> c = CHR 0x0B \<or> c = CHR 0x0C \<or> c = CHR 0x0D \<or>
     c = CHR 0x20 \<or> c = CHR 0xA0"

definition trim :: "string \<Rightarrow> string" where
  "trim s = rev (dropWhile isWhiteSpace (rev (dropWhile isWhiteSpace s)))"

fun startsWith :: "string \<Rightarrow> string \<Rightarrow> bool" where
  "startsWith s [] = True"
| "startsWith [] (p # ps) = False"
| "startsWith (c # cs) (p # ps) = (c = p \<and> startsWith cs ps)"

text \<open>\<^verbatim>\<open>s.includes(sub)\<close>: \<open>sub\<close> occurs in \<open>s\<close> as a contiguous, case-sensitive substring.\<close>

fun includes_str :: "string \<Rightarrow> string \<Rightarrow> bool" where
  "includes_str [] sub = (sub = [])"
| "includes_str (c # cs) sub = (startsWith (c # cs) sub \<or> includes_str cs sub)"

text \<open>\<^verbatim>\<open>a || b\<close> on an optional string: \<open>undefined\<close>, \<open>null\<close> and \<open>""\<close> are falsy.\<close>

fun truthy :: "string option \<Rightarrow> bool" where
  "truthy None = False"
| "truthy (Some s) = (s \<noteq> [])"

definition orElse :: "string option \<Rightarrow> string \<Rightarrow> string" where
  "orElse a b = (if truthy a then the a else b)"

text \<open>A non-negative integer in a template literal: its decimal digits.\<close>

definition digit :: "nat \<Rightarrow> char" where
  "digit n = ''0123456789'' ! n"

fun string_of_nat :: "nat \<Rightarrow> string" where
  "string_of_nat n =
     (if n < 10 then [digit n] else string_of_nat (n div 10) @ [digit (n mod 10)])"

declare string_of_nat.simps [simp del]

section \<open>HTTP outcomes\<close>

text \<open>
  What one \<^verbatim>\<open>fetch\<close> and the \<^verbatim>\<open>json()\<close> of its response can do: the fetch rejects with an
  error carrying a message; or a response arrives with a status, whose body either fails
  to decode (an error with a message), or decodes to \<^verbatim>\<open>null\<close>, or decodes to a payload (any
  other value: the payload records below hold the fields the program reads from it, a
  field the value does not have being absent).
\<close>

datatype 'p body = Malformed string | DecodedNull | Decoded 'p

datatype 'p response = Rejected string | Response nat "'p body"

text \<open>
  Reading a property of \<^verbatim>\<open>null\<close> throws a \<^verbatim>\<open>TypeError\<close>. Its message is worded by the engine;
  this is the wording of V8, with the name of the property between single quotes.
\<close>

definition nullReadMessage :: "string \<Rightarrow> string" where
  "nullReadMessage property =
     ''Cannot read properties of null (reading '' @ [CHR 0x27] @ property @ [CHR 0x27] @ '')''"

text \<open>\<^verbatim>\<open>response.ok\<close>\<close>

definition ok :: "nat \<Rightarrow> bool" where
  "ok status \<longleftrightarrow> 200 \<le> status \<and> status \<le> 299"

section \<open>The summary panel (component AiSummary, search/ai-summary.tsx)\<close>

text \<open>
  \<^verbatim>\<open>API_KEYS\<close> is a list of seven bearer tokens. The tokens are opaque to the program,
  which only indexes the list, so each is named by its position.
\<close>

datatype credential = Credential nat

definition API_KEYS :: "credential list" where
  "API_KEYS = [Credential 0, Credential 1, Credential 2, Credential 3, Credential 4,
               Credential 5, Credential 6]"

record summary_state =
  summary :: string
  ai_loading :: bool
  ai_error :: "string option"
  currentApiKeyIndex :: nat

text \<open>The state the component is mounted with (\<open>apiKeyIndex\<close> defaults to 0).\<close>

definition AiSummary_init :: "nat \<Rightarrow> summary_state" where
  "AiSummary_init apiKeyIndex =
     \<lparr>summary = [], ai_loading = False, ai_error = None, currentApiKeyIndex = apiKeyIndex\<rparr>"

text \<open>
  The fields of the completion backend's JSON that the program reads:
  \<^verbatim>\<open>errorData.error?.message\<close> and \<^verbatim>\<open>data.choices?.[0]?.message?.content\<close>
  (\<open>None\<close> when the path is missing or null).
\<close>

record completion_payload =
  error_message :: "string option"
  choice_content :: "string option"

subsection \<open>renderMarkdown\<close>

text \<open>
  \<^verbatim>\<open>text.replace(/\*\*(.*?)\*\*/g, "<strong>$1</strong>").replace(/\n/g, "<br/>")\<close>

  \<open>closeBold\<close> is the lazy group followed by the closing stars, run on the text after an
  opening \<^verbatim>\<open>**\<close>: the group grows one character at a time, the closing stars are tried
  first at each position, and the dot refuses a line terminator. It returns the group and
  the text after the match.
\<close>

fun closeBold :: "string \<Rightarrow> (string \<times> string) option" where
  "closeBold [] = None"
| "closeBold (c # cs) =
     (if startsWith (c # cs) ''**'' then Some ([], drop 2 (c # cs))
      else if isLineTerminator c then None
      else (case closeBold cs of None \<Rightarrow> None | Some (x, rest) \<Rightarrow> Some (c # x, rest)))"

text \<open>
  The global replace: matches are searched from left to right, each search starting
  where the previous match ended; a position with no match is copied and skipped.
\<close>

function replaceBold :: "string \<Rightarrow> string" where
  "replaceBold [] = []"
| "replaceBold (c # cs) =
     (if startsWith (c # cs) ''**'' then
        (case closeBold (drop 2 (c # cs)) of
           Some (x, rest) \<Rightarrow> ''<strong>'' @ x @ ''</strong>'' @ replaceBold rest
         | None \<Rightarrow> c # replaceBold cs)
      else c # replaceBold cs)"
  by pat_completeness auto
termination
proof (relation "measure length")
  show "wf (measure length)" by simp
next
  fix c cs xa x rest
  assume close: "closeBold (drop 2 (c # cs)) = Some xa" and xa: "(x, rest) = xa"
  have shorter: "closeBold s = Some (y, r) \<Longrightarrow> length r < length s" for s y r
    by (induction s arbitrary: y r) (auto split: if_splits option.splits)
  from close xa have "length rest < length (drop 2 (c # cs))"
    using shorter [of "drop 2 (c # cs)" x rest] by simp
  then show "(rest, c # cs) \<in> measure length" by simp
qed simp_all

fun replaceNewlines :: "string \<Rightarrow> string" where
  "replaceNewlines [] = []"
| "replaceNewlines (c # cs) =
     (if c = CHR 0x0A then ''<br/>'' @ replaceNewlines cs else c # replaceNewlines cs)"

definition renderMarkdown :: "string \<Rightarrow> string" where
  "renderMarkdown text = replaceNewlines (replaceBold text)"

subsection \<open>fetchSummary\<close>

text \<open>
  The \<^verbatim>\<open>try\<close> block of one attempt, up to the value it hands on: \<open>Inl\<close> the message
  of the error thrown, \<open>Inr\<close> the text passed to \<^verbatim>\<open>setSummary\<close>. On a body that is
  \<^verbatim>\<open>null\<close>, \<^verbatim>\<open>errorData.error\<close> and \<^verbatim>\<open>data.choices\<close> throw: the optional chaining starts
  after them.
\<close>

definition requestSummary :: "completion_payload response \<Rightarrow> string + string" where
  "requestSummary r =
     (case r of
        Rejected m \<Rightarrow> Inl m
      | Response status b \<Rightarrow>
          (case b of
             Malformed m \<Rightarrow> Inl m
           | DecodedNull \<Rightarrow>
               if \<not> ok status then Inl (nullReadMessage ''error'')
               else Inl (nullReadMessage ''choices'')
           | Decoded d \<Rightarrow>
               if \<not> ok status then Inl (orElse (error_message d) ''AI summary generation failed'')
               else if \<not> truthy (choice_content d) then Inl ''No summary returned''
               else Inr (renderMarkdown (trim (the (choice_content d))))))"

text \<open>The test of the \<^verbatim>\<open>catch\<close> block.\<close>

definition retryable :: "string \<Rightarrow> bool" where
  "retryable message \<longleftrightarrow>
     includes_str message ''rate limit'' \<or> includes_str message ''authentication'' \<or>
     includes_str message ''invalid''"

text \<open>
  What an execution does beyond its state: the requests it posts (with which credential),
  the timers it sets (milliseconds) and the call of \<^verbatim>\<open>onSummaryComplete\<close>, which the
  results panel passes in.
\<close>

datatype effect = Post credential | Timeout nat | SummaryComplete

text \<open>
  \<open>fetchSummary backend retry st\<close>: the backend answers attempt number \<open>retry\<close> with
  \<open>backend retry\<close>. The recursive call is the one the timer makes. Each attempt ends
  with the \<^verbatim>\<open>finally\<close> block.
\<close>

function fetchSummary ::
  "(nat \<Rightarrow> completion_payload response) \<Rightarrow> nat \<Rightarrow> summary_state \<Rightarrow> summary_state \<times> effect list"
where
  "fetchSummary backend retry st =
     (let st1 = st\<lparr>ai_loading := True, summary := [], ai_error := None\<rparr>;
          apiKey = API_KEYS ! (retry mod length API_KEYS)
      in case requestSummary (backend retry) of
           Inr text \<Rightarrow>
             (st1\<lparr>summary := text, ai_loading := False\<rparr>, [Post apiKey, SummaryComplete])
         | Inl message \<Rightarrow>
             if retryable message then
               if retry + 1 < length API_KEYS then
                 (case fetchSummary backend (retry + 1)
                         (st1\<lparr>currentApiKeyIndex := (retry + 1) mod length API_KEYS,
                              ai_loading := False\<rparr>) of
                    (st', effects) \<Rightarrow> (st', Post apiKey # Timeout 800 # effects))
               else
                 (st1\<lparr>ai_error := Some ''All API keys exhausted. Please try again later.'',
                      ai_loading := False\<rparr>, [Post apiKey])
             else
               (st1\<lparr>ai_error := Some (orElse (Some message) ''Failed to generate AI summary''),
                    ai_loading := False\<rparr>, [Post apiKey]))"
  by pat_completeness auto
termination
  by (relation "measure (\<lambda>(backend, retry, st). length API_KEYS - retry)") auto

declare fetchSummary.simps [simp del]

text \<open>The effect of the component: nothing for an empty query, else the first attempt.\<close>

definition AiSummary_effect ::
  "(nat \<Rightarrow> completion_payload response) \<Rightarrow> string \<Rightarrow> summary_state \<Rightarrow> summary_state \<times> effect list"
where
  "AiSummary_effect backend query st = (if query = [] then (st, []) else fetchSummary backend 0 st)"

text \<open>What the component renders: nothing, the spinner, the error text or the summary.\<close>

datatype summary_view = RendersNothing | Generating | ErrorText string | SummaryHtml string

definition AiSummary_render :: "string \<Rightarrow> summary_state \<Rightarrow> summary_view" where
  "AiSummary_render query st =
     (if query = [] then RendersNothing
      else if ai_loading st then Generating
      else if truthy (ai_error st) then ErrorText (the (ai_error st))
      else SummaryHtml (summary st))"

text \<open>The requests of an execution, in order.\<close>

fun posts :: "effect list \<Rightarrow> credential list" where
  "posts [] = []"
| "posts (Post k # es) = k # posts es"
| "posts (e # es) = posts es"

section \<open>The results panel (component SearchResults, with fetchResults and fetchPageContent)\<close>

datatype view_mode = TextMode | ImagesMode

text \<open>
  The state of the component. \<open>'r\<close> is the type of one result; the program only stores
  and lists results. \<open>contentView\<close> holds the URL and the content of the overlay.
\<close>

record 'r results_state =
  results :: "'r list"
  loading :: bool
  error :: "string option"
  executionTime :: rat
  totalResults :: nat
  selectedEngine :: string
  contentView :: "(string \<times> string) option"
  loadingContent :: bool
  viewMode :: view_mode

definition SearchResults_init :: "string \<Rightarrow> 'r results_state" where
  "SearchResults_init searchEngine =
     \<lparr>results = [], loading = False, error = None, executionTime = 0, totalResults = 0,
      selectedEngine = searchEngine, contentView = None, loadingContent = False,
      viewMode = TextMode\<rparr>"

text \<open>
  The fields of the search backend's JSON that the program reads. \<open>p_results\<close> is \<open>None\<close>
  when \<^verbatim>\<open>data.results\<close> is missing or not an array; a missing number reads as 0, which
  \<^verbatim>\<open>||\<close> treats alike.
\<close>

record 'r search_payload =
  p_results :: "'r list option"
  p_total_results :: nat
  p_execution_time :: rat
  p_error :: "string option"

text \<open>\<^verbatim>\<open>a || b\<close> on numbers: 0 is falsy.\<close>

definition numOr :: "'a::zero \<Rightarrow> 'a \<Rightarrow> 'a" where
  "numOr a b = (if a = 0 then b else a)"

subsection \<open>The request URL\<close>

text \<open>
  \<^verbatim>\<open>encodeURIComponent\<close> on code units below 256: the unreserved characters are kept, every
  other character is written as the percent-escaped bytes of its UTF-8 encoding (one byte
  below 128, two bytes from 128 on).
\<close>

definition uriUnreserved :: "char \<Rightarrow> bool" where
  "uriUnreserved c \<longleftrightarrow>
     c \<in> set (''ABCDEFGHIJKLMNOPQRSTUVWXYZabcdefghijklmnopqrstuvwxyz0123456789-_.!~*()'' @
              [CHR 0x27])"

definition hexDigit :: "nat \<Rightarrow> char" where
  "hexDigit n = ''0123456789ABCDEF'' ! n"

definition percent :: "nat \<Rightarrow> string" where
  "percent b = [CHR ''%'', hexDigit (b div 16), hexDigit (b mod 16)]"

fun encodeURIComponent :: "string \<Rightarrow> string" where
  "encodeURIComponent [] = []"
| "encodeURIComponent (c # cs) =
     (if uriUnreserved c then [c]
      else if of_char c < (128 :: nat) then percent (of_char c)
      else percent (192 + of_char c div 64) @ percent (128 + of_char c mod 64))
     @ encodeURIComponent cs"

text \<open>
  The authority of a URL \<^verbatim>\<open>scheme://authority/path?query#fragment\<close> (RFC 3986, section 3):
  the text between the \<^verbatim>\<open>//\<close> that follows the scheme and the next \<^verbatim>\<open>/\<close>, \<^verbatim>\<open>?\<close> or \<^verbatim>\<open>#\<close>.
  The host is the authority up to the colon that introduces the port. A request is sent
  to the host of its URL.
\<close>

definition url_authority :: "string \<Rightarrow> string option" where
  "url_authority url =
     (let rest = dropWhile (\<lambda>c. c \<noteq> CHR '':'') url
      in if startsWith rest ''://'' then Some (takeWhile (\<lambda>c. c \<notin> set ''/?#'') (drop 3 rest))
         else None)"

definition url_host :: "string \<Rightarrow> string option" where
  "url_host url = map_option (takeWhile (\<lambda>c. c \<noteq> CHR '':'')) (url_authority url)"

text \<open>The template literal passed to \<^verbatim>\<open>fetch\<close> by \<^verbatim>\<open>fetchResults\<close>.\<close>

definition searchUrl :: "string \<Rightarrow> string \<Rightarrow> nat \<Rightarrow> string" where
  "searchUrl query engine numResults =
     ''http://https://azizah.onrender.com/api/search/?query='' @ encodeURIComponent query @
     ''&search_engine='' @ engine @ ''&num_results='' @ string_of_nat numResults"

text \<open>The one of \<^verbatim>\<open>fetchPageContent\<close>.\<close>

definition contentUrl :: "string \<Rightarrow> string" where
  "contentUrl url = ''http://https://azizah.onrender.com/api/content/?url='' @ encodeURIComponent url"

text \<open>
  The effect of the component: for a non-empty query in text mode, \<^verbatim>\<open>fetchResults\<close> is
  called and requests this URL; otherwise the effect returns at once.
\<close>

definition SearchResults_effect :: "string \<Rightarrow> nat \<Rightarrow> 'r results_state \<Rightarrow> string option" where
  "SearchResults_effect query numResults st =
     (if query = [] then None
      else if viewMode st \<noteq> TextMode then None
      else Some (searchUrl query (selectedEngine st) numResults))"

subsection \<open>fetchResults\<close>

text \<open>
  An asynchronous function runs up to its first \<^verbatim>\<open>await\<close> when it is called and resumes
  when the request settles; nothing of the state is read or written in between. So each
  fetcher is two functions: \<open>_begin\<close>, the part before the request, and \<open>_settle\<close>, the
  part after it, which takes the outcome of the request.
\<close>

definition fetchResults_begin :: "'r results_state \<Rightarrow> 'r results_state" where
  "fetchResults_begin st = st\<lparr>loading := True, error := None\<rparr>"

text \<open>
  The \<^verbatim>\<open>try\<close> block up to the point where it either throws (\<open>Inl\<close> the message) or
  has a payload with a results array (\<open>Inr\<close>).
\<close>

definition requestResults :: "'r search_payload response \<Rightarrow> string + 'r search_payload" where
  "requestResults r =
     (case r of
        Rejected m \<Rightarrow> Inl m
      | Response status b \<Rightarrow>
          if \<not> ok status then Inl (''HTTP error! status: '' @ string_of_nat status)
          else (case b of
                  Malformed m \<Rightarrow> Inl m
                | DecodedNull \<Rightarrow> Inl (nullReadMessage ''results'')
                | Decoded d \<Rightarrow>
                    (case p_results d of
                       Some rs \<Rightarrow> Inr d
                     | None \<Rightarrow> Inl ''Unexpected data format from API'')))"

definition fetchResults_settle :: "'r search_payload response \<Rightarrow> 'r results_state \<Rightarrow> 'r results_state" where
  "fetchResults_settle r st =
     (case requestResults r of
        Inr d \<Rightarrow>
          (let st1 = st\<lparr>results := the (p_results d),
                        totalResults := numOr (p_total_results d) (length (the (p_results d))),
                        executionTime := numOr (p_execution_time d) 0\<rparr>;
               st2 = (if truthy (p_error d) then st1\<lparr>error := p_error d\<rparr> else st1)
           in st2\<lparr>loading := False\<rparr>)
      | Inl message \<Rightarrow>
          st\<lparr>error := Some (orElse (Some message) ''Something went wrong.''),
             results := [], loading := False\<rparr>)"

text \<open>One fetch from call to settlement, with nothing else in between.\<close>

definition fetchResults :: "'r results_state \<Rightarrow> 'r search_payload response \<Rightarrow> 'r results_state" where
  "fetchResults st r = fetchResults_settle r (fetchResults_begin st)"

subsection \<open>fetchPageContent\<close>

text \<open>
  The fields of the content backend's JSON that the program reads. \<open>c_content\<close> is \<open>None\<close>
  when \<^verbatim>\<open>data.content\<close> is falsy, and \<open>Some c\<close> when it is an object whose field
  \<^verbatim>\<open>content\<close> is \<open>c\<close>.
\<close>

record content_payload =
  c_content :: "string option option"
  c_error :: "string option"

definition fetchPageContent_begin :: "'r results_state \<Rightarrow> 'r results_state" where
  "fetchPageContent_begin st = st\<lparr>loadingContent := True\<rparr>"

text \<open>
  The \<^verbatim>\<open>try\<close> block: \<open>Inl\<close> the message of the error thrown; \<open>Inr (Some text)\<close> the content
  passed to \<^verbatim>\<open>setContentView\<close>; \<open>Inr None\<close> when the block ends without doing either.
\<close>

definition requestContent :: "content_payload response \<Rightarrow> string + string option" where
  "requestContent r =
     (case r of
        Rejected m \<Rightarrow> Inl m
      | Response status b \<Rightarrow>
          if \<not> ok status then Inl (''HTTP error! status: '' @ string_of_nat status)
          else (case b of
                  Malformed m \<Rightarrow> Inl m
                | DecodedNull \<Rightarrow> Inl (nullReadMessage ''content'')
                | Decoded d \<Rightarrow>
                    (case c_content d of
                       Some c \<Rightarrow> Inr (Some (orElse c ''No content extracted''))
                     | None \<Rightarrow>
                         if truthy (c_error d) then Inl (the (c_error d)) else Inr None)))"

text \<open>The second component of the result lists the texts passed to \<^verbatim>\<open>alert\<close>.\<close>

definition fetchPageContent_settle ::
  "string \<Rightarrow> content_payload response \<Rightarrow> 'r results_state \<Rightarrow> 'r results_state \<times> string list"
where
  "fetchPageContent_settle url r st =
     (case requestContent r of
        Inr (Some text) \<Rightarrow> (st\<lparr>contentView := Some (url, text), loadingContent := False\<rparr>, [])
      | Inr None \<Rightarrow> (st\<lparr>loadingContent := False\<rparr>, [])
      | Inl message \<Rightarrow>
          (st\<lparr>loadingContent := False\<rparr>, [''Failed to fetch page content: '' @ message]))"

definition fetchPageContent ::
  "string \<Rightarrow> 'r results_state \<Rightarrow> content_payload response \<Rightarrow> 'r results_state \<times> string list"
where
  "fetchPageContent url st r = fetchPageContent_settle url r (fetchPageContent_begin st)"

subsection \<open>The other handlers\<close>

definition closeContentView :: "'r results_state \<Rightarrow> 'r results_state" where
  "closeContentView st = st\<lparr>contentView := None\<rparr>"

definition changeSearchEngine :: "string \<Rightarrow> 'r results_state \<Rightarrow> 'r results_state" where
  "changeSearchEngine engine st = st\<lparr>selectedEngine := engine\<rparr>"

definition toggleViewMode :: "view_mode \<Rightarrow> 'r results_state \<Rightarrow> 'r results_state" where
  "toggleViewMode mode st = st\<lparr>viewMode := mode\<rparr>"

subsection \<open>What is rendered\<close>

text \<open>
  The three conditional blocks of the text branch: the spinner, the error text and the
  message that nothing was found. \<^verbatim>\<open>error && ...\<close> and \<^verbatim>\<open>!error\<close> test truthiness.
\<close>

definition showsLoading :: "'r results_state \<Rightarrow> bool" where
  "showsLoading st \<longleftrightarrow> viewMode st = TextMode \<and> loading st"

definition showsError :: "'r results_state \<Rightarrow> bool" where
  "showsError st \<longleftrightarrow> viewMode st = TextMode \<and> truthy (error st)"

definition showsNoResults :: "'r results_state \<Rightarrow> bool" where
  "showsNoResults st \<longleftrightarrow>
     viewMode st = TextMode \<and> \<not> loading st \<and> \<not> truthy (error st) \<and> length (results st) = 0"

text \<open>The overlay: the content of \<open>contentView\<close>, behind a spinner while content loads.\<close>

definition displayedContent :: "'r results_state \<Rightarrow> (string \<times> string) option" where
  "displayedContent st =
     (if viewMode st = TextMode \<and> \<not> loadingContent st then contentView st else None)"

subsection \<open>Interleavings\<close>

text \<open>
  What can happen to the component, one event at a time: a fetcher is called (its part
  before the request runs), a request settles (the rest of that call runs, with the URL
  the call was made for), or a handler runs. \<open>run\<close> plays a sequence of events and
  collects the alerts.
\<close>

datatype 'r event =
    ResultsCalled
  | ResultsSettled "'r search_payload response"
  | ContentCalled string
  | ContentSettled string "content_payload response"
  | SummaryCompleted
  | ContentClosed
  | EngineChanged string
  | ModeToggled view_mode

fun step :: "'r results_state \<times> string list \<Rightarrow> 'r event \<Rightarrow> 'r results_state \<times> string list" where
  "step (st, alerts) ResultsCalled = (fetchResults_begin st, alerts)"
| "step (st, alerts) (ResultsSettled r) = (fetchResults_settle r st, alerts)"
| "step (st, alerts) (ContentCalled url) = (fetchPageContent_begin st, alerts)"
| "step (st, alerts) (ContentSettled url r) =
     (fst (fetchPageContent_settle url r st), alerts @ snd (fetchPageContent_settle url r st))"
| "step (st, alerts) SummaryCompleted = (st\<lparr>contentView := None\<rparr>, alerts)"
| "step (st, alerts) ContentClosed = (closeContentView st, alerts)"
| "step (st, alerts) (EngineChanged engine) = (changeSearchEngine engine st, alerts)"
| "step (st, alerts) (ModeToggled mode) = (toggleViewMode mode st, alerts)"

definition run :: "'r event list \<Rightarrow> 'r results_state \<Rightarrow> 'r results_state \<times> string list" where
  "run events st = foldl step (st, []) events"

section \<open>The image panel (component ImageSearchResults, search/image-search.tsx)\<close>

text \<open>The part of the component's state that its \<^verbatim>\<open>fetchResults\<close> writes.\<close>

record 'r image_state =
  img_results :: "'r list"
  img_loading :: bool
  img_error :: "string option"
  img_executionTime :: rat
  img_totalResults :: nat
  img_selectedEngine :: string

definition imageSearchUrl :: "string \<Rightarrow> string \<Rightarrow> nat \<Rightarrow> string" where
  "imageSearchUrl query engine numResults =
     ''http://localhost:10000/api/image-search/?query='' @ encodeURIComponent query @
     ''&search_engine='' @ engine @ ''&num_results='' @ string_of_nat numResults"

definition image_fetchResults_begin :: "'r image_state \<Rightarrow> 'r image_state" where
  "image_fetchResults_begin st = st\<lparr>img_loading := True, img_error := None\<rparr>"

definition image_fetchResults_settle :: "'r search_payload response \<Rightarrow> 'r image_state \<Rightarrow> 'r image_state" where
  "image_fetchResults_settle r st =
     (case requestResults r of
        Inr d \<Rightarrow>
          (let st1 = st\<lparr>img_results := the (p_results d),
                        img_totalResults := numOr (p_total_results d) (length (the (p_results d))),
                        img_executionTime := numOr (p_execution_time d) 0\<rparr>;
               st2 = (if truthy (p_error d) then st1\<lparr>img_error := p_error d\<rparr> else st1)
           in st2\<lparr>img_loading := False\<rparr>)
      | Inl message \<Rightarrow>
          st\<lparr>img_error := Some (orElse (Some message) ''Something went wrong.''),
             img_results := [], img_loading := False\<rparr>)"

definition image_fetchResults :: "'r image_state \<Rightarrow> 'r search_payload response \<Rightarrow> 'r image_state" where
  "image_fetchResults st r = image_fetchResults_settle r (image_fetchResults_begin st)"

section \<open>The search form (component SearchInterface, with a submitted query)\<close>

record interface_state =
  searchQuery :: string
  activeFeature :: string
  showResults :: bool
  submittedQuery :: string

definition SearchInterface_init :: interface_state where
  "SearchInterface_init =
     \<lparr>searchQuery = [], activeFeature = ''search'', showResults = False, submittedQuery = []\<rparr>"

definition handleSearch :: "interface_state \<Rightarrow> interface_state" where
  "handleSearch st =
     (if trim (searchQuery st) \<noteq> [] then
        st\<lparr>submittedQuery := trim (searchQuery st), showResults := True\<rparr>
      else st)"

text \<open>
  The results panel is rendered while \<open>showResults\<close> holds, with \<open>submittedQuery\<close> as its
  query. Its effects list the query among their dependencies: they run after the render
  that mounts the panel and after each render in which the query differs from the one of
  the previous render. \<open>fetchesAfter old new mode\<close> lists the fetches the effects issue
  when the form's state goes from \<open>old\<close> to \<open>new\<close> while the panel is in view mode
  \<open>mode\<close>: an effect that runs returns at once on an empty query; in text mode the text
  search and the summary fetch, in image mode the image search.
\<close>

datatype fetch = TextSearchFetch string | SummaryFetch string | ImageSearchFetch string

definition effectRuns :: "'d option \<Rightarrow> 'd \<Rightarrow> bool" where
  "effectRuns previous current \<longleftrightarrow> previous \<noteq> Some current"

definition fetchesAfter :: "interface_state \<Rightarrow> interface_state \<Rightarrow> view_mode \<Rightarrow> fetch list" where
  "fetchesAfter old new mode =
     (if showResults new \<and>
         effectRuns (if showResults old then Some (submittedQuery old) else None)
                    (submittedQuery new)
      then (if submittedQuery new = [] then []
            else (case mode of
                    TextMode \<Rightarrow> [TextSearchFetch (submittedQuery new),
                                  SummaryFetch (submittedQuery new)]
                  | ImagesMode \<Rightarrow> [ImageSearchFetch (submittedQuery new)]))
      else [])"

section \<open>The search form of components/search-interface.tsx\<close>

text \<open>
  This form keeps no submitted query: it passes the draft query on, to a results panel
  that lists fixed mock results and fetches nothing.
\<close>

record interface0_state =
  searchQuery0 :: string
  activeFeature0 :: string
  showResults0 :: bool

definition handleSearch0 :: "interface0_state \<Rightarrow> interface0_state" where
  "handleSearch0 st = (if trim (searchQuery0 st) \<noteq> [] then st\<lparr>showResults0 := True\<rparr> else st)"

section \<open>Concrete inputs\<close>

text \<open>Two answers of the completion backend, used as concrete inputs below.\<close>

definition rate_limited :: "completion_payload response" where
  "rate_limited = Response 429 (Decoded \<lparr>error_message = Some ''rate limit reached'', choice_content = None\<rparr>)"

definition server_error :: "completion_payload response" where
  "server_error = Response 500 (Decoded \<lparr>error_message = Some ''internal error'', choice_content = None\<rparr>)"

text \<open>Two states of the search form with a blank draft query.\<close>

definition blank_form :: interface_state where
  "blank_form = \<lparr>searchQuery = [CHR 0x20, CHR 0x09, CHR 0x20], activeFeature = ''search'',
                 showResults = True, submittedQuery = ''rust ownership''\<rparr>"

definition blank_form0 :: interface0_state where
  "blank_form0 = \<lparr>searchQuery0 = [CHR 0x20, CHR 0x0A], activeFeature0 = ''search'',
                  showResults0 = False\<rparr>"

text \<open>A payload with no results, and a panel listing three results.\<close>

definition empty_payload :: "nat search_payload" where
  "empty_payload = \<lparr>p_results = Some [], p_total_results = 0, p_execution_time = 0, p_error = None\<rparr>"

definition listing :: "nat results_state" where
  "listing = (SearchResults_init ''google'')\<lparr>results := [1, 2, 3], totalResults := 3\<rparr>"

text \<open>The panel after a failed search.\<close>

definition failed_listing :: "nat results_state" where
  "failed_listing = listing\<lparr>error := Some ''HTTP error! status: 500'', results := []\<rparr>"

text \<open>A successful answer of the content backend.\<close>

definition content_of :: "string \<Rightarrow> content_payload response" where
  "content_of text = Response 200 (Decoded \<lparr>c_content = Some (Some text), c_error = None\<rparr>)"

text \<open>A payload without a results array, a content payload with an error, and an image panel
  listing two results.\<close>

definition no_array :: "nat search_payload" where
  "no_array = \<lparr>p_results = None, p_total_results = 0, p_execution_time = 0, p_error = None\<rparr>"

definition blocked :: content_payload where
  "blocked = \<lparr>c_content = None, c_error = Some ''blocked by robots.txt''\<rparr>"

definition image_listing :: "nat image_state" where
  "image_listing =
     \<lparr>img_results = [4, 5], img_loading = False, img_error = None, img_executionTime = 0,
      img_totalResults = 2, img_selectedEngine = ''bing''\<rparr>"

section \<open>Properties of the summary panel\<close>

lemma startsWith_iff: "startsWith s p \<longleftrightarrow> (\<exists>post. s = p @ post)"
  by (induction s p rule: startsWith.induct) auto

lemma includes_str_iff: "includes_str s sub \<longleftrightarrow> (\<exists>pre post. s = pre @ sub @ post)"
proof (induction s)
  case Nil
  then show ?case by auto
next
  case (Cons c cs)
  have "(\<exists>pre post. c # cs = pre @ sub @ post) \<longleftrightarrow>
        (\<exists>post. c # cs = sub @ post) \<or> (\<exists>pre post. cs = pre @ sub @ post)"
    (is "?L \<longleftrightarrow> ?A \<or> ?B")
  proof
    assume ?L
    then obtain pre post where eq: "c # cs = pre @ sub @ post" by blast
    show "?A \<or> ?B"
    proof (cases pre)
      case Nil
      with eq show ?thesis by auto
    next
      case (Cons p pre')
      with eq have "cs = pre' @ sub @ post" by simp
      then show ?thesis by blast
    qed
  next
    assume "?A \<or> ?B"
    then show ?L
    proof
      assume ?A
      then obtain post where "c # cs = [] @ sub @ post" by auto
      then show ?L by blast
    next
      assume ?B
      then obtain pre post where "c # cs = (c # pre) @ sub @ post" by auto
      then show ?L by blast
    qed
  qed
  with Cons show ?case by (simp add: startsWith_iff)
qed

lemma length_API_KEYS: "length API_KEYS = 7"
  by (simp add: API_KEYS_def)

lemma fetchSummary_success:
  assumes "requestSummary (backend r) = Inr t"
  shows "fetchSummary backend r st =
           (st\<lparr>ai_loading := False, summary := t, ai_error := None\<rparr>,
            [Post (API_KEYS ! (r mod length API_KEYS)), SummaryComplete])"
  using assms by (subst fetchSummary.simps) (simp add: Let_def)

lemma fetchSummary_retry:
  assumes "requestSummary (backend r) = Inl m" and "retryable m" and "r + 1 < length API_KEYS"
  shows "fetchSummary backend r st =
           (let next = fetchSummary backend (r + 1)
                   (st\<lparr>summary := [], ai_error := None,
                       currentApiKeyIndex := (r + 1) mod length API_KEYS,
                       ai_loading := False\<rparr>)
            in (fst next, Post (API_KEYS ! (r mod length API_KEYS)) # Timeout 800 # snd next))"
  using assms by (subst fetchSummary.simps) (simp add: Let_def case_prod_beta)

lemma fetchSummary_exhausted:
  assumes "requestSummary (backend r) = Inl m" and "retryable m" and "\<not> r + 1 < length API_KEYS"
  shows "fetchSummary backend r st =
           (st\<lparr>ai_loading := False, summary := [],
               ai_error := Some ''All API keys exhausted. Please try again later.''\<rparr>,
            [Post (API_KEYS ! (r mod length API_KEYS))])"
  using assms by (subst fetchSummary.simps) (simp add: Let_def)

lemma fetchSummary_terminal:
  assumes "requestSummary (backend r) = Inl m" and "\<not> retryable m"
  shows "fetchSummary backend r st =
           (st\<lparr>ai_loading := False, summary := [],
               ai_error := Some (orElse (Some m) ''Failed to generate AI summary'')\<rparr>,
            [Post (API_KEYS ! (r mod length API_KEYS))])"
  using assms by (subst fetchSummary.simps) (simp add: Let_def)

lemma fetchSummary_all_retryable:
  assumes "\<forall>k. r \<le> k \<and> k < length API_KEYS \<longrightarrow>
             (\<exists>m. requestSummary (backend k) = Inl m \<and> retryable m)"
    and "r < length API_KEYS"
  shows "posts (snd (fetchSummary backend r st)) = drop r API_KEYS \<and>
         summary (fst (fetchSummary backend r st)) = [] \<and>
         \<not> ai_loading (fst (fetchSummary backend r st)) \<and>
         ai_error (fst (fetchSummary backend r st)) =
           Some ''All API keys exhausted. Please try again later.''"
  using assms
proof (induction "length API_KEYS - r" arbitrary: r st)
  case 0
  then show ?case by simp
next
  case (Suc n)
  from Suc.prems obtain m where m: "requestSummary (backend r) = Inl m" "retryable m"
    by auto
  have key: "drop r API_KEYS = API_KEYS ! r # drop (Suc r) API_KEYS"
    using Suc.prems(2) by (simp add: Cons_nth_drop_Suc)
  show ?case
  proof (cases "r + 1 < length API_KEYS")
    case True
    have "n = length API_KEYS - (r + 1)" using Suc.hyps(2) by simp
    moreover have "\<forall>k. r + 1 \<le> k \<and> k < length API_KEYS \<longrightarrow>
             (\<exists>m. requestSummary (backend k) = Inl m \<and> retryable m)"
      using Suc.prems(1) by auto
    ultimately have IH: "\<And>st. posts (snd (fetchSummary backend (r + 1) st)) = drop (r + 1) API_KEYS \<and>
         summary (fst (fetchSummary backend (r + 1) st)) = [] \<and>
         \<not> ai_loading (fst (fetchSummary backend (r + 1) st)) \<and>
         ai_error (fst (fetchSummary backend (r + 1) st)) =
           Some ''All API keys exhausted. Please try again later.''"
      using Suc.hyps(1) True by blast
    show ?thesis
      using IH Suc.prems(2) key
      by (simp add: fetchSummary_retry [of backend r m, OF m True] Let_def)
  next
    case False
    then have "Suc r = length API_KEYS" using Suc.prems(2) by simp
    then show ?thesis
      using key Suc.prems(2) by (simp add: fetchSummary_exhausted [of backend r m, OF m False])
  qed
qed

lemma fetchSummary_first_effect:
  "\<exists>rest. snd (fetchSummary backend r st) = Post (API_KEYS ! (r mod length API_KEYS)) # rest"
  by (subst fetchSummary.simps) (simp add: Let_def case_prod_beta split: sum.splits)

lemma orElse_nonempty: "b \<noteq> [] \<Longrightarrow> orElse a b \<noteq> []"
  by (cases a) (auto simp: orElse_def)

lemma not_retryable_no_summary: "\<not> retryable ''No summary returned''"
  by (simp add: retryable_def)

text \<open>
  C1, as stated, fails where the error of the first attempt has an empty message: the
  message is not retryable, one attempt is made, and the text reported is the fallback
  of the \<^verbatim>\<open>catch\<close> block, not the (empty) message.
\<close>

theorem fetchSummary_empty_message_counterexample:
  "requestSummary (Rejected []) = Inl [] \<and> \<not> retryable [] \<and>
   ai_error (fst (fetchSummary (\<lambda>k. Rejected []) 0 (AiSummary_init 0))) =
     Some ''Failed to generate AI summary'' \<and>
   ai_error (fst (fetchSummary (\<lambda>k. Rejected []) 0 (AiSummary_init 0))) \<noteq> Some []"
proof -
  have a: "requestSummary (Rejected []) = Inl []" by (simp add: requestSummary_def)
  have b: "\<not> retryable []" by (simp add: retryable_def)
  show ?thesis
    using a b by (simp add: fetchSummary_terminal [of "\<lambda>k. Rejected []" 0 "[]"] orElse_def)
qed

text \<open>
  C1 (amended). Against the pool of seven credentials: if every attempt fails with a
  retryable error, exactly seven requests are posted, the k-th with the k-th credential,
  and the execution ends with the message that all keys are exhausted. If the first
  attempt fails with an error that is not retryable, exactly one request is posted and
  the message reported is that of the error, or \<^verbatim>\<open>Failed to generate AI summary\<close> when the
  error's message is empty.
\<close>

theorem fetchSummary_attempts:
  "((\<forall>k<length API_KEYS. \<exists>m. requestSummary (backend k) = Inl m \<and> retryable m) \<longrightarrow>
      posts (snd (fetchSummary backend 0 st)) = API_KEYS \<and>
      length (posts (snd (fetchSummary backend 0 st))) = 7 \<and>
      \<not> ai_loading (fst (fetchSummary backend 0 st)) \<and>
      ai_error (fst (fetchSummary backend 0 st)) =
        Some ''All API keys exhausted. Please try again later.'') \<and>
   (requestSummary (backend 0) = Inl m \<and> \<not> retryable m \<longrightarrow>
      snd (fetchSummary backend 0 st) = [Post (API_KEYS ! 0)] \<and>
      \<not> ai_loading (fst (fetchSummary backend 0 st)) \<and>
      ai_error (fst (fetchSummary backend 0 st)) =
        Some (if m = [] then ''Failed to generate AI summary'' else m))"
proof (intro conjI impI)
  assume all: "\<forall>k<length API_KEYS. \<exists>m. requestSummary (backend k) = Inl m \<and> retryable m"
  then have "\<forall>k. 0 \<le> k \<and> k < length API_KEYS \<longrightarrow>
               (\<exists>m. requestSummary (backend k) = Inl m \<and> retryable m)" by simp
  then have *: "posts (snd (fetchSummary backend 0 st)) = drop 0 API_KEYS \<and>
         summary (fst (fetchSummary backend 0 st)) = [] \<and>
         \<not> ai_loading (fst (fetchSummary backend 0 st)) \<and>
         ai_error (fst (fetchSummary backend 0 st)) =
           Some ''All API keys exhausted. Please try again later.''"
    by (rule fetchSummary_all_retryable) (simp add: length_API_KEYS)
  from * show "posts (snd (fetchSummary backend 0 st)) = API_KEYS" by simp
  from * show "length (posts (snd (fetchSummary backend 0 st))) = 7"
    by (simp add: length_API_KEYS)
  from * show "\<not> ai_loading (fst (fetchSummary backend 0 st))" by simp
  from * show "ai_error (fst (fetchSummary backend 0 st)) =
        Some ''All API keys exhausted. Please try again later.''" by simp
next
  assume h: "requestSummary (backend 0) = Inl m \<and> \<not> retryable m"
  then have eq: "fetchSummary backend 0 st =
           (st\<lparr>ai_loading := False, summary := [],
               ai_error := Some (orElse (Some m) ''Failed to generate AI summary'')\<rparr>,
            [Post (API_KEYS ! (0 mod length API_KEYS))])"
    using fetchSummary_terminal [of backend 0 m st] by simp
  from eq show "snd (fetchSummary backend 0 st) = [Post (API_KEYS ! 0)]" by simp
  from eq show "\<not> ai_loading (fst (fetchSummary backend 0 st))" by simp
  from eq show "ai_error (fst (fetchSummary backend 0 st)) =
        Some (if m = [] then ''Failed to generate AI summary'' else m)"
    by (simp add: orElse_def)
qed

lemma rate_limited_retryable:
  "requestSummary rate_limited = Inl ''rate limit reached'' \<and> retryable ''rate limit reached''"
  by (simp add: rate_limited_def requestSummary_def ok_def orElse_def retryable_def)

lemma server_error_terminal:
  "requestSummary server_error = Inl ''internal error'' \<and> \<not> retryable ''internal error''"
  by (simp add: server_error_def requestSummary_def ok_def orElse_def retryable_def)

theorem fetchSummary_attempts_witness:
  "requestSummary ((\<lambda>k. rate_limited) 0) = Inl ''rate limit reached'' \<and>
   retryable ''rate limit reached'' \<and>
   posts (snd (fetchSummary (\<lambda>k. rate_limited) 0 (AiSummary_init 0))) =
     [Credential 0, Credential 1, Credential 2, Credential 3, Credential 4, Credential 5,
      Credential 6] \<and>
   ai_error (fst (fetchSummary (\<lambda>k. rate_limited) 0 (AiSummary_init 0))) =
     Some ''All API keys exhausted. Please try again later.'' \<and>
   requestSummary ((\<lambda>k. server_error) 0) = Inl ''internal error'' \<and>
   \<not> retryable ''internal error'' \<and>
   snd (fetchSummary (\<lambda>k. server_error) 0 (AiSummary_init 0)) = [Post (Credential 0)] \<and>
   ai_error (fst (fetchSummary (\<lambda>k. server_error) 0 (AiSummary_init 0))) =
     Some ''internal error''"
  using fetchSummary_attempts [of "\<lambda>k. rate_limited" "AiSummary_init 0" "''internal error''"]
        fetchSummary_attempts [of "\<lambda>k. server_error" "AiSummary_init 0" "''internal error''"]
        rate_limited_retryable server_error_terminal
  by (simp add: API_KEYS_def)

text \<open>
  C2. After a failed attempt number \<open>r\<close> with error message \<open>m\<close>: if \<open>m\<close> contains
  \<^verbatim>\<open>rate limit\<close>, \<^verbatim>\<open>authentication\<close> or \<^verbatim>\<open>invalid\<close> as a substring (compared character by
  character, so case matters) and \<open>r + 1\<close> is below the size of the pool, a timer of 800
  milliseconds is set and the next request is posted with credential \<open>r + 1\<close>; in every
  other case the request of attempt \<open>r\<close> is the only one, the panel stops loading and a
  non-empty error text is reported.
\<close>

theorem fetchSummary_retry_policy:
  assumes "requestSummary (backend r) = Inl m"
  shows "(((\<exists>pre post. m = pre @ ''rate limit'' @ post) \<or>
           (\<exists>pre post. m = pre @ ''authentication'' @ post) \<or>
           (\<exists>pre post. m = pre @ ''invalid'' @ post)) \<and> r + 1 < length API_KEYS \<longrightarrow>
            (\<exists>rest. snd (fetchSummary backend r st) =
               Post (API_KEYS ! r) # Timeout 800 # Post (API_KEYS ! (r + 1)) # rest)) \<and>
         (\<not> (((\<exists>pre post. m = pre @ ''rate limit'' @ post) \<or>
           (\<exists>pre post. m = pre @ ''authentication'' @ post) \<or>
           (\<exists>pre post. m = pre @ ''invalid'' @ post)) \<and> r + 1 < length API_KEYS) \<longrightarrow>
            snd (fetchSummary backend r st) = [Post (API_KEYS ! (r mod length API_KEYS))] \<and>
            \<not> ai_loading (fst (fetchSummary backend r st)) \<and>
            (\<exists>e. ai_error (fst (fetchSummary backend r st)) = Some e \<and> e \<noteq> []))"
proof -
  have cls: "retryable m \<longleftrightarrow>
        ((\<exists>pre post. m = pre @ ''rate limit'' @ post) \<or>
         (\<exists>pre post. m = pre @ ''authentication'' @ post) \<or>
         (\<exists>pre post. m = pre @ ''invalid'' @ post))"
    unfolding retryable_def includes_str_iff ..
  show ?thesis
  proof (cases "retryable m")
    case False
    then show ?thesis
      using cls fetchSummary_terminal [of backend r m st] assms orElse_nonempty
      by simp
  next
    case True
    show ?thesis
    proof (cases "r + 1 < length API_KEYS")
      case False
      with True show ?thesis
        using cls fetchSummary_exhausted [of backend r m st] assms by simp
    next
      case less: True
      obtain rest where rest: "snd (fetchSummary backend (r + 1)
                   (st\<lparr>summary := [], ai_error := None,
                       currentApiKeyIndex := (r + 1) mod length API_KEYS,
                       ai_loading := False\<rparr>)) =
           Post (API_KEYS ! ((r + 1) mod length API_KEYS)) # rest"
        using fetchSummary_first_effect by blast
      have "snd (fetchSummary backend r st) =
               Post (API_KEYS ! r) # Timeout 800 # Post (API_KEYS ! (r + 1)) # rest"
        using less rest by (simp add: fetchSummary_retry [of backend r m st, OF assms True less] Let_def)
      with True less cls show ?thesis by blast
    qed
  qed
qed

theorem fetchSummary_retry_policy_witness:
  "requestSummary ((\<lambda>k. rate_limited) 2) = Inl ''rate limit reached'' \<and>
   ''rate limit reached'' = [] @ ''rate limit'' @ '' reached'' \<and> (2::nat) + 1 < length API_KEYS \<and>
   (\<exists>rest. snd (fetchSummary (\<lambda>k. rate_limited) 2 (AiSummary_init 0)) =
      Post (Credential 2) # Timeout 800 # Post (Credential 3) # rest) \<and>
   requestSummary ((\<lambda>k. rate_limited) 6) = Inl ''rate limit reached'' \<and>
   \<not> (6::nat) + 1 < length API_KEYS \<and>
   snd (fetchSummary (\<lambda>k. rate_limited) 6 (AiSummary_init 0)) = [Post (Credential 6)]"
proof -
  let ?b = "\<lambda>k::nat. rate_limited"
  let ?m = "''rate limit reached''"
  let ?cls = "(\<exists>pre post. ?m = pre @ ''rate limit'' @ post) \<or>
              (\<exists>pre post. ?m = pre @ ''authentication'' @ post) \<or>
              (\<exists>pre post. ?m = pre @ ''invalid'' @ post)"
  have a: "requestSummary (?b n) = Inl ?m" for n
    using rate_limited_retryable by simp
  have b: "?m = [] @ ''rate limit'' @ '' reached''" by simp
  then have c: "?cls" by blast
  have two: "(2::nat) + 1 < length API_KEYS" and six: "\<not> (6::nat) + 1 < length API_KEYS"
    by (simp_all add: length_API_KEYS)
  have "?cls \<and> 2 + 1 < length API_KEYS \<longrightarrow>
          (\<exists>rest. snd (fetchSummary ?b 2 (AiSummary_init 0)) =
             Post (API_KEYS ! 2) # Timeout 800 # Post (API_KEYS ! (2 + 1)) # rest)"
    using fetchSummary_retry_policy [of ?b 2 ?m "AiSummary_init 0", OF a] by (rule conjunct1)
  with c two have "\<exists>rest. snd (fetchSummary ?b 2 (AiSummary_init 0)) =
             Post (API_KEYS ! 2) # Timeout 800 # Post (API_KEYS ! (2 + 1)) # rest"
    by blast
  moreover have k: "API_KEYS ! 2 = Credential 2" "API_KEYS ! (2 + 1) = Credential 3"
    "API_KEYS ! (6 mod length API_KEYS) = Credential 6"
    by (simp_all add: API_KEYS_def)
  ultimately have first: "\<exists>rest. snd (fetchSummary ?b 2 (AiSummary_init 0)) =
             Post (Credential 2) # Timeout 800 # Post (Credential 3) # rest"
    by simp
  have "\<not> (?cls \<and> 6 + 1 < length API_KEYS) \<longrightarrow>
          snd (fetchSummary ?b 6 (AiSummary_init 0)) = [Post (API_KEYS ! (6 mod length API_KEYS))] \<and>
          \<not> ai_loading (fst (fetchSummary ?b 6 (AiSummary_init 0))) \<and>
          (\<exists>e. ai_error (fst (fetchSummary ?b 6 (AiSummary_init 0))) = Some e \<and> e \<noteq> [])"
    using fetchSummary_retry_policy [of ?b 6 ?m "AiSummary_init 0", OF a] by (rule conjunct2)
  with six have "snd (fetchSummary ?b 6 (AiSummary_init 0)) = [Post (API_KEYS ! (6 mod length API_KEYS))]"
    by blast
  with k have second: "snd (fetchSummary ?b 6 (AiSummary_init 0)) = [Post (Credential 6)]"
    by simp
  from a b two six first second show ?thesis by blast
qed

lemma not_retryable_null_choices: "\<not> retryable (nullReadMessage ''choices'')"
  by (simp add: retryable_def nullReadMessage_def)

text \<open>
  C9, as stated, fails where the body of a successful response decodes to \<^verbatim>\<open>null\<close>: that
  payload has no \<^verbatim>\<open>choices[0].message.content\<close>, but \<^verbatim>\<open>data.choices\<close> throws before the test of
  the content, and the panel reports the message of that error, not
  \<^verbatim>\<open>No summary returned\<close>.
\<close>

theorem fetchSummary_null_body_counterexample:
  "requestSummary (Response 200 DecodedNull) = Inl (nullReadMessage ''choices'') \<and>
   nullReadMessage ''choices'' =
     ''Cannot read properties of null (reading '' @ [CHR 0x27] @ ''choices'' @ [CHR 0x27] @ '')'' \<and>
   ai_error (fst (fetchSummary (\<lambda>k. Response 200 DecodedNull) 0 (AiSummary_init 0))) =
     Some (nullReadMessage ''choices'') \<and>
   ai_error (fst (fetchSummary (\<lambda>k. Response 200 DecodedNull) 0 (AiSummary_init 0))) \<noteq>
     Some ''No summary returned''"
proof -
  have req: "requestSummary ((\<lambda>k. Response 200 DecodedNull) (0::nat)) =
               Inl (nullReadMessage ''choices'')"
    by (simp add: requestSummary_def ok_def)
  have msg: "nullReadMessage ''choices'' \<noteq> []" "nullReadMessage ''choices'' \<noteq> ''No summary returned''"
    by (simp_all add: nullReadMessage_def)
  have "ai_error (fst (fetchSummary (\<lambda>k. Response 200 DecodedNull) 0 (AiSummary_init 0))) =
          Some (nullReadMessage ''choices'')"
    using fetchSummary_terminal [of "\<lambda>k. Response 200 DecodedNull" 0 "nullReadMessage ''choices''"
                                   "AiSummary_init 0", OF req not_retryable_null_choices] msg
    by (simp add: orElse_def)
  with req msg show ?thesis by (simp add: nullReadMessage_def)
qed

text \<open>
  C9 (amended). A successful response whose body decodes to a value other than \<^verbatim>\<open>null\<close>
  and whose \<^verbatim>\<open>choices[0].message.content\<close> is missing, null or empty makes the attempt fail
  with \<^verbatim>\<open>No summary returned\<close>; a successful response whose body decodes to \<^verbatim>\<open>null\<close> makes
  it fail with the error thrown by reading \<^verbatim>\<open>choices\<close> of \<^verbatim>\<open>null\<close>. Neither message is
  retryable, so in both cases the attempt's request is the only one and the message is
  what the panel reports.
\<close>

theorem fetchSummary_no_summary_terminal:
  assumes "ok status"
  shows "(backend r = Response status (Decoded d) \<and>
          (choice_content d = None \<or> choice_content d = Some []) \<longrightarrow>
            requestSummary (backend r) = Inl ''No summary returned'' \<and>
            \<not> retryable ''No summary returned'' \<and>
            snd (fetchSummary backend r st) = [Post (API_KEYS ! (r mod length API_KEYS))] \<and>
            fst (fetchSummary backend r st) =
              st\<lparr>ai_loading := False, summary := [], ai_error := Some ''No summary returned''\<rparr>) \<and>
         (backend r = Response status DecodedNull \<longrightarrow>
            requestSummary (backend r) = Inl (nullReadMessage ''choices'') \<and>
            \<not> retryable (nullReadMessage ''choices'') \<and>
            snd (fetchSummary backend r st) = [Post (API_KEYS ! (r mod length API_KEYS))] \<and>
            fst (fetchSummary backend r st) =
              st\<lparr>ai_loading := False, summary := [],
                 ai_error := Some (nullReadMessage ''choices'')\<rparr>)"
proof (intro conjI impI)
  assume h: "backend r = Response status (Decoded d) \<and>
             (choice_content d = None \<or> choice_content d = Some [])"
  with assms have req: "requestSummary (backend r) = Inl ''No summary returned''"
    by (auto simp: requestSummary_def)
  then show "requestSummary (backend r) = Inl ''No summary returned''" .
  show "\<not> retryable ''No summary returned''" by (rule not_retryable_no_summary)
  have eq: "fetchSummary backend r st =
              (st\<lparr>ai_loading := False, summary := [], ai_error := Some ''No summary returned''\<rparr>,
               [Post (API_KEYS ! (r mod length API_KEYS))])"
    using fetchSummary_terminal [of backend r "''No summary returned''" st, OF req
            not_retryable_no_summary]
    by (simp add: orElse_def)
  from eq show "snd (fetchSummary backend r st) = [Post (API_KEYS ! (r mod length API_KEYS))]"
    by simp
  from eq show "fst (fetchSummary backend r st) =
              st\<lparr>ai_loading := False, summary := [], ai_error := Some ''No summary returned''\<rparr>"
    by simp
next
  assume h: "backend r = Response status DecodedNull"
  with assms have req: "requestSummary (backend r) = Inl (nullReadMessage ''choices'')"
    by (simp add: requestSummary_def)
  then show "requestSummary (backend r) = Inl (nullReadMessage ''choices'')" .
  show "\<not> retryable (nullReadMessage ''choices'')" by (rule not_retryable_null_choices)
  have ne: "nullReadMessage ''choices'' \<noteq> []" by (simp add: nullReadMessage_def)
  have eq: "fetchSummary backend r st =
              (st\<lparr>ai_loading := False, summary := [],
                  ai_error := Some (nullReadMessage ''choices'')\<rparr>,
               [Post (API_KEYS ! (r mod length API_KEYS))])"
    using fetchSummary_terminal [of backend r "nullReadMessage ''choices''" st, OF req
            not_retryable_null_choices] ne
    by (simp add: orElse_def)
  from eq show "snd (fetchSummary backend r st) = [Post (API_KEYS ! (r mod length API_KEYS))]"
    by simp
  from eq show "fst (fetchSummary backend r st) =
              st\<lparr>ai_loading := False, summary := [],
                 ai_error := Some (nullReadMessage ''choices'')\<rparr>"
    by simp
qed

theorem fetchSummary_no_summary_terminal_witness:
  "ok 200 \<and> ok 201 \<and>
   snd (fetchSummary (\<lambda>k. Response 200 (Decoded \<lparr>error_message = None, choice_content = None\<rparr>))
          0 (AiSummary_init 0)) = [Post (Credential 0)] \<and>
   ai_error (fst (fetchSummary
          (\<lambda>k. Response 200 (Decoded \<lparr>error_message = None, choice_content = Some []\<rparr>))
          0 (AiSummary_init 0))) = Some ''No summary returned'' \<and>
   snd (fetchSummary (\<lambda>k. Response 201 DecodedNull) 3 (AiSummary_init 0)) =
     [Post (Credential 3)] \<and>
   ai_error (fst (fetchSummary (\<lambda>k. Response 201 DecodedNull) 3 (AiSummary_init 0))) =
     Some (nullReadMessage ''choices'')"
proof -
  have good: "ok 200" "ok 201" by (simp_all add: ok_def)
  from fetchSummary_no_summary_terminal
         [OF good(1),
          of "\<lambda>k. Response 200 (Decoded \<lparr>error_message = None, choice_content = None\<rparr>)"
             0 "\<lparr>error_message = None, choice_content = None\<rparr>" "AiSummary_init 0"]
  have a: "snd (fetchSummary
                 (\<lambda>k. Response 200 (Decoded \<lparr>error_message = None, choice_content = None\<rparr>))
                 0 (AiSummary_init 0)) = [Post (API_KEYS ! (0 mod length API_KEYS))]"
    by simp
  from fetchSummary_no_summary_terminal
         [OF good(1),
          of "\<lambda>k. Response 200 (Decoded \<lparr>error_message = None, choice_content = Some []\<rparr>)"
             0 "\<lparr>error_message = None, choice_content = Some []\<rparr>" "AiSummary_init 0"]
  have b: "fst (fetchSummary
                 (\<lambda>k. Response 200 (Decoded \<lparr>error_message = None, choice_content = Some []\<rparr>))
                 0 (AiSummary_init 0)) =
           (AiSummary_init 0)\<lparr>ai_loading := False, summary := [],
                               ai_error := Some ''No summary returned''\<rparr>"
    by simp
  from fetchSummary_no_summary_terminal
         [OF good(2), of "\<lambda>k. Response 201 DecodedNull" 3
             "\<lparr>error_message = None, choice_content = None\<rparr>" "AiSummary_init 0"]
  have c: "snd (fetchSummary (\<lambda>k. Response 201 DecodedNull) 3 (AiSummary_init 0)) =
             [Post (API_KEYS ! (3 mod length API_KEYS))]"
    and d: "fst (fetchSummary (\<lambda>k. Response 201 DecodedNull) 3 (AiSummary_init 0)) =
           (AiSummary_init 0)\<lparr>ai_loading := False, summary := [],
                               ai_error := Some (nullReadMessage ''choices'')\<rparr>"
    by simp_all
  from good a b c d show ?thesis by (simp add: API_KEYS_def)
qed

section \<open>Properties of the search form and the results panel\<close>

lemma trim_empty_iff: "trim q = [] \<longleftrightarrow> (\<forall>c\<in>set q. isWhiteSpace c)"
proof
  assume "\<forall>c\<in>set q. isWhiteSpace c"
  then show "trim q = []" by (auto simp: trim_def dest: set_dropWhileD)
next
  assume "trim q = []"
  then have all: "\<forall>c\<in>set (dropWhile isWhiteSpace q). isWhiteSpace c"
    by (simp add: trim_def)
  have "dropWhile isWhiteSpace q = []"
  proof (rule ccontr)
    assume ne: "dropWhile isWhiteSpace q \<noteq> []"
    then have "\<not> isWhiteSpace (hd (dropWhile isWhiteSpace q))" by (rule hd_dropWhile)
    moreover from ne have "hd (dropWhile isWhiteSpace q) \<in> set (dropWhile isWhiteSpace q)"
      by simp
    ultimately show False using all by blast
  qed
  then show "\<forall>c\<in>set q. isWhiteSpace c" by simp
qed

lemma fetchesAfter_same: "fetchesAfter st st mode = []"
  by (simp add: fetchesAfter_def effectRuns_def)

text \<open>
  C3. When the draft query is empty or consists of white space only, submitting the form
  leaves the form's state as it is (\<open>submittedQuery\<close> and \<open>showResults\<close> included), so no
  effect of the results panel runs and no fetch is issued; the form of
  components/search-interface.tsx leaves its state as it is too. The summary panel, given an empty query, starts no request and renders nothing.
\<close>

theorem handleSearch_blank:
  "((\<forall>c\<in>set (searchQuery st). isWhiteSpace c) \<longrightarrow>
      handleSearch st = st \<and>
      submittedQuery (handleSearch st) = submittedQuery st \<and>
      showResults (handleSearch st) = showResults st \<and>
      fetchesAfter st (handleSearch st) mode = []) \<and>
   ((\<forall>c\<in>set (searchQuery0 st0). isWhiteSpace c) \<longrightarrow> handleSearch0 st0 = st0) \<and>
   AiSummary_effect backend [] sst = (sst, []) \<and>
   AiSummary_render [] sst = RendersNothing"
proof (intro conjI impI)
  assume "\<forall>c\<in>set (searchQuery st). isWhiteSpace c"
  then have "trim (searchQuery st) = []" by (simp add: trim_empty_iff)
  then have same: "handleSearch st = st" by (simp add: handleSearch_def)
  then show "handleSearch st = st" .
  from same show "submittedQuery (handleSearch st) = submittedQuery st" by simp
  from same show "showResults (handleSearch st) = showResults st" by simp
  from same show "fetchesAfter st (handleSearch st) mode = []"
    by (simp add: fetchesAfter_same)
next
  assume "\<forall>c\<in>set (searchQuery0 st0). isWhiteSpace c"
  then have "trim (searchQuery0 st0) = []" by (simp add: trim_empty_iff)
  then show "handleSearch0 st0 = st0" by (simp add: handleSearch0_def)
next
  show "AiSummary_effect backend [] sst = (sst, [])" by (simp add: AiSummary_effect_def)
  show "AiSummary_render [] sst = RendersNothing" by (simp add: AiSummary_render_def)
qed

theorem handleSearch_blank_witness:
  "isWhiteSpace (CHR 0x20) \<and> isWhiteSpace (CHR 0x09) \<and> isWhiteSpace (CHR 0x0A) \<and>
   handleSearch blank_form = blank_form \<and>
   submittedQuery (handleSearch blank_form) = ''rust ownership'' \<and>
   showResults (handleSearch blank_form) \<and>
   fetchesAfter blank_form (handleSearch blank_form) TextMode = [] \<and>
   handleSearch SearchInterface_init = SearchInterface_init \<and>
   handleSearch0 blank_form0 = blank_form0"
proof -
  have ws: "isWhiteSpace (CHR 0x20)" "isWhiteSpace (CHR 0x09)" "isWhiteSpace (CHR 0x0A)"
    by (simp_all add: isWhiteSpace_def)
  have a: "\<forall>c\<in>set (searchQuery blank_form). isWhiteSpace c"
    by (simp add: blank_form_def isWhiteSpace_def)
  have b: "\<forall>c\<in>set (searchQuery0 blank_form0). isWhiteSpace c"
    by (simp add: blank_form0_def isWhiteSpace_def)
  have c: "\<forall>c\<in>set (searchQuery SearchInterface_init). isWhiteSpace c"
    by (simp add: SearchInterface_init_def)
  have d: "submittedQuery blank_form = ''rust ownership''" "showResults blank_form"
    by (simp_all add: blank_form_def)
  from handleSearch_blank [of blank_form TextMode blank_form0] a b
  have 1: "handleSearch blank_form = blank_form"
    and 2: "fetchesAfter blank_form (handleSearch blank_form) TextMode = []"
    and 3: "handleSearch0 blank_form0 = blank_form0"
    by blast+
  from handleSearch_blank [of SearchInterface_init TextMode blank_form0] c
  have 4: "handleSearch SearchInterface_init = SearchInterface_init" by blast
  from ws 1 2 3 4 d show ?thesis by simp
qed

lemma truthy_orElse_Some: "orElse (Some m) d = (if m = [] then d else m)"
  by (simp add: orElse_def)

lemma fetchResults_settle_failure:
  assumes "requestResults r = Inl m"
  shows "fetchResults_settle r st =
           st\<lparr>error := Some (if m = [] then ''Something went wrong.'' else m),
              results := [], loading := False\<rparr>"
  using assms by (simp add: fetchResults_settle_def truthy_orElse_Some)

lemma fetchResults_settle_success:
  assumes "requestResults r = Inr d"
  shows "results (fetchResults_settle r st) = the (p_results d) \<and>
         \<not> loading (fetchResults_settle r st) \<and>
         error (fetchResults_settle r st) = (if truthy (p_error d) then p_error d else error st) \<and>
         viewMode (fetchResults_settle r st) = viewMode st"
  using assms by (simp add: fetchResults_settle_def Let_def)

lemma error_wf_settle:
  assumes "error st \<noteq> Some []"
  shows "error (fetchResults_settle r st) \<noteq> Some []"
proof (cases "requestResults r")
  case (Inl m)
  then show ?thesis by (simp add: fetchResults_settle_failure)
next
  case (Inr d)
  then show ?thesis using assms by (cases "p_error d") (auto simp: fetchResults_settle_success)
qed

lemma error_wf_step:
  assumes "error (fst s) \<noteq> Some []"
  shows "error (fst (step s e)) \<noteq> Some []"
proof (cases s)
  case (Pair st alerts)
  with assms show ?thesis
    by (cases e)
       (auto simp: error_wf_settle fetchResults_begin_def fetchPageContent_begin_def
          fetchPageContent_settle_def closeContentView_def changeSearchEngine_def
          toggleViewMode_def split: sum.splits option.splits)
qed

lemma error_wf_foldl:
  "error (fst s) \<noteq> Some [] \<Longrightarrow> error (fst (foldl step s events)) \<noteq> Some []"
  by (induction events arbitrary: s) (simp_all add: error_wf_step)

lemma error_wf_run: "error (fst (run events (SearchResults_init engine))) \<noteq> Some []"
  unfolding run_def by (rule error_wf_foldl) (simp add: SearchResults_init_def)

lemma truthy_iff: "truthy e \<longleftrightarrow> (\<exists>m. e = Some m \<and> m \<noteq> [])"
  by (cases e) auto

lemma settle_empty_payload:
  assumes "ok status" and "p_results d = Some []" and "p_error d = None"
  shows "results (fetchResults_settle (Response status (Decoded d)) st) = [] \<and>
         \<not> loading (fetchResults_settle (Response status (Decoded d)) st) \<and>
         error (fetchResults_settle (Response status (Decoded d)) st) = error st \<and>
         viewMode (fetchResults_settle (Response status (Decoded d)) st) = viewMode st"
proof -
  from assms have req: "requestResults (Response status (Decoded d)) = Inr d"
    by (simp add: requestResults_def)
  show ?thesis
    using assms fetchResults_settle_success [OF req, of st] by simp
qed

lemma run_failed_search:
  "fst (run [ResultsCalled, ResultsSettled (Response 500 (Malformed []))]
         (SearchResults_init ''google'' :: nat results_state)) =
   (SearchResults_init ''google'')\<lparr>error := Some ''HTTP error! status: 500''\<rparr>"
  by (simp add: run_def fetchResults_begin_def fetchResults_settle_def requestResults_def ok_def
        orElse_def string_of_nat.simps digit_def SearchResults_init_def)

text \<open>
  C4, as stated, fails when fetches overlap: a text search is called, the engine is
  changed and the search is called again; one request is answered with a status of 500 and
  then the other with a 2xx response whose payload has \<^verbatim>\<open>results: []\<close> and a null error. The
  settlement of the second leaves the error message of the first, so the error text is
  shown and the no-results message is not.
\<close>

theorem stale_error_counterexample:
  "showsError (fst (run [ResultsCalled, EngineChanged ''bing'', ResultsCalled,
                         ResultsSettled (Response 500 (Malformed [])),
                         ResultsSettled (Response 200 (Decoded empty_payload))]
                     (SearchResults_init ''google''))) \<and>
   \<not> showsNoResults (fst (run [ResultsCalled, EngineChanged ''bing'', ResultsCalled,
                         ResultsSettled (Response 500 (Malformed [])),
                         ResultsSettled (Response 200 (Decoded empty_payload))]
                     (SearchResults_init ''google''))) \<and>
   error (fst (run [ResultsCalled, EngineChanged ''bing'', ResultsCalled,
                         ResultsSettled (Response 500 (Malformed [])),
                         ResultsSettled (Response 200 (Decoded empty_payload))]
                     (SearchResults_init ''google''))) = Some ''HTTP error! status: 500''"
proof -
  have "fst (run [ResultsCalled, EngineChanged ''bing'', ResultsCalled,
                  ResultsSettled (Response 500 (Malformed [])),
                  ResultsSettled (Response 200 (Decoded empty_payload))]
              (SearchResults_init ''google'')) =
        (SearchResults_init ''google'' :: nat results_state)
          \<lparr>error := Some ''HTTP error! status: 500'', selectedEngine := ''bing''\<rparr>"
    by (simp add: run_def fetchResults_begin_def fetchResults_settle_def requestResults_def
          ok_def orElse_def string_of_nat.simps digit_def SearchResults_init_def
          changeSearchEngine_def empty_payload_def numOr_def)
  then show ?thesis
    by (simp add: showsError_def showsNoResults_def SearchResults_init_def)
qed

text \<open>
  C4 (amended). The settlement of a text search answered with a 2xx response whose payload
  has \<^verbatim>\<open>results: []\<close> and a null error ends loading, empties the result list and leaves the
  error message as it finds it. In text mode the state after it therefore shows the
  no-results message exactly when no error message is set at that moment, and the error
  text exactly when one is. No message is set when the fetch runs from its call to its
  settlement with nothing in between, since the call clears it: that fetch ends in the
  state that shows the no-results message, and neither the error text nor the spinner. In
  every state the panel can reach, the error text is shown only when an error message is
  set, the no-results message is shown exactly when loading is false, the error is null
  and the result list is empty, and the two are never shown together.
\<close>

theorem fetchResults_no_results:
  "(ok status \<and> p_results d = Some [] \<and> p_error d = None \<longrightarrow>
      results (fetchResults_settle (Response status (Decoded d)) st) = [] \<and>
      \<not> loading (fetchResults_settle (Response status (Decoded d)) st) \<and>
      error (fetchResults_settle (Response status (Decoded d)) st) = error st \<and>
      (viewMode st = TextMode \<longrightarrow>
         showsNoResults (fetchResults_settle (Response status (Decoded d)) st) =
           (\<not> truthy (error st)) \<and>
         showsError (fetchResults_settle (Response status (Decoded d)) st) =
           truthy (error st) \<and>
         \<not> showsLoading (fetchResults_settle (Response status (Decoded d)) st))) \<and>
   (viewMode st = TextMode \<and> ok status \<and> p_results d = Some [] \<and> p_error d = None \<longrightarrow>
      showsNoResults (fetchResults st (Response status (Decoded d))) \<and>
      \<not> showsError (fetchResults st (Response status (Decoded d))) \<and>
      \<not> showsLoading (fetchResults st (Response status (Decoded d))) \<and>
      error (fetchResults st (Response status (Decoded d))) = None \<and>
      results (fetchResults st (Response status (Decoded d))) = []) \<and>
   (showsError (fst (run events (SearchResults_init engine))) \<longrightarrow>
      (\<exists>m. error (fst (run events (SearchResults_init engine))) = Some m \<and> m \<noteq> [])) \<and>
   (showsNoResults (fst (run events (SearchResults_init engine))) \<longleftrightarrow>
      viewMode (fst (run events (SearchResults_init engine))) = TextMode \<and>
      \<not> loading (fst (run events (SearchResults_init engine))) \<and>
      error (fst (run events (SearchResults_init engine))) = None \<and>
      results (fst (run events (SearchResults_init engine))) = []) \<and>
   \<not> (showsError s \<and> showsNoResults s)"
proof (intro conjI impI)
  assume h: "ok status \<and> p_results d = Some [] \<and> p_error d = None"
  let ?st' = "fetchResults_settle (Response status (Decoded d)) st"
  have facts: "results ?st' = [] \<and> \<not> loading ?st' \<and> error ?st' = error st \<and>
               viewMode ?st' = viewMode st"
    using h settle_empty_payload [of status d st] by blast
  from facts show "results ?st' = []" by simp
  from facts show "\<not> loading ?st'" by simp
  from facts show "error ?st' = error st" by simp
  assume "viewMode st = TextMode"
  with facts show "showsNoResults ?st' = (\<not> truthy (error st))"
    by (simp add: showsNoResults_def)
  from facts \<open>viewMode st = TextMode\<close> show "showsError ?st' = truthy (error st)"
    by (simp add: showsError_def)
  from facts show "\<not> showsLoading ?st'" by (simp add: showsLoading_def)
next
  assume h: "viewMode st = TextMode \<and> ok status \<and> p_results d = Some [] \<and> p_error d = None"
  let ?st' = "fetchResults st (Response status (Decoded d))"
  have facts: "results ?st' = [] \<and> \<not> loading ?st' \<and> error ?st' = None \<and> viewMode ?st' = TextMode"
    using h settle_empty_payload [of status d "fetchResults_begin st"]
    by (simp add: fetchResults_def fetchResults_begin_def)
  from facts show "showsNoResults ?st'" by (simp add: showsNoResults_def)
  from facts show "\<not> showsError ?st'" by (simp add: showsError_def)
  from facts show "\<not> showsLoading ?st'" by (simp add: showsLoading_def)
  from facts show "error ?st' = None" by simp
  from facts show "results ?st' = []" by simp
next
  assume "showsError (fst (run events (SearchResults_init engine)))"
  then show "\<exists>m. error (fst (run events (SearchResults_init engine))) = Some m \<and> m \<noteq> []"
    by (simp add: showsError_def truthy_iff)
next
  let ?s = "fst (run events (SearchResults_init engine))"
  have "\<not> truthy (error ?s) \<longleftrightarrow> error ?s = None"
    using error_wf_run [of events engine] by (cases "error ?s") auto
  then show "showsNoResults ?s \<longleftrightarrow>
      viewMode ?s = TextMode \<and> \<not> loading ?s \<and> error ?s = None \<and> results ?s = []"
    by (simp add: showsNoResults_def)
next
  show "\<not> (showsError s \<and> showsNoResults s)"
    by (simp add: showsError_def showsNoResults_def)
qed

theorem fetchResults_no_results_witness:
  "viewMode listing = TextMode \<and> ok 200 \<and> p_results empty_payload = Some [] \<and>
   p_error empty_payload = None \<and>
   showsNoResults (fetchResults listing (Response 200 (Decoded empty_payload))) \<and>
   \<not> showsError (fetchResults listing (Response 200 (Decoded empty_payload))) \<and>
   viewMode failed_listing = TextMode \<and> truthy (error failed_listing) \<and>
   showsError (fetchResults_settle (Response 200 (Decoded empty_payload)) failed_listing) \<and>
   \<not> showsNoResults (fetchResults_settle (Response 200 (Decoded empty_payload)) failed_listing) \<and>
   error (fetchResults_settle (Response 200 (Decoded empty_payload)) failed_listing) =
     Some ''HTTP error! status: 500'' \<and>
   \<not> truthy (error (fetchResults_begin listing)) \<and>
   showsNoResults (fetchResults_settle (Response 200 (Decoded empty_payload))
                     (fetchResults_begin listing)) \<and>
   showsError (fst (run [ResultsCalled, ResultsSettled (Response 500 (Malformed []))]
                    (SearchResults_init ''google'' :: nat results_state))) \<and>
   (\<exists>m. error (fst (run [ResultsCalled, ResultsSettled (Response 500 (Malformed []))]
                    (SearchResults_init ''google'' :: nat results_state))) = Some m \<and> m \<noteq> [])"
proof -
  let ?r = "Response 200 (Decoded empty_payload)"
  have pre: "ok 200 \<and> p_results empty_payload = Some [] \<and> p_error empty_payload = None"
    by (simp add: ok_def empty_payload_def)
  have vm: "viewMode listing = TextMode" "viewMode failed_listing = TextMode"
    "viewMode (fetchResults_begin listing) = TextMode"
    by (simp_all add: listing_def failed_listing_def SearchResults_init_def fetchResults_begin_def)
  have er: "truthy (error failed_listing)" "error failed_listing = Some ''HTTP error! status: 500''"
    "\<not> truthy (error (fetchResults_begin listing))"
    by (simp_all add: failed_listing_def fetchResults_begin_def)
  have err: "showsError (fst (run [ResultsCalled, ResultsSettled (Response 500 (Malformed []))]
                    (SearchResults_init ''google'' :: nat results_state)))"
    unfolding showsError_def run_failed_search by (simp add: SearchResults_init_def)
  note main = fetchResults_no_results
  from main [where st = listing and status = 200 and d = empty_payload
             and events = "[ResultsCalled, ResultsSettled (Response 500 (Malformed []))]"
             and engine = "''google''"] pre vm err
  have atomic: "showsNoResults (fetchResults listing ?r) \<and> \<not> showsError (fetchResults listing ?r)"
    and ex: "\<exists>m. error (fst (run [ResultsCalled, ResultsSettled (Response 500 (Malformed []))]
                    (SearchResults_init ''google'' :: nat results_state))) = Some m \<and> m \<noteq> []"
    by blast+
  from main [where st = failed_listing and status = 200 and d = empty_payload] pre vm
  have stale: "showsError (fetchResults_settle ?r failed_listing) = truthy (error failed_listing)"
    "showsNoResults (fetchResults_settle ?r failed_listing) = (\<not> truthy (error failed_listing))"
    "error (fetchResults_settle ?r failed_listing) = error failed_listing"
    by blast+
  from main [where st = "fetchResults_begin listing" and status = 200 and d = empty_payload] pre vm
  have fresh: "showsNoResults (fetchResults_settle ?r (fetchResults_begin listing)) =
                 (\<not> truthy (error (fetchResults_begin listing)))"
    by blast
  from pre vm er err atomic ex stale fresh show ?thesis by simp
qed

text \<open>
  C10. When a text search fails, that is, when its \<^verbatim>\<open>try\<close> block throws, the settlement
  that sets the error message also empties the result list, from whatever state it
  starts. More generally the result list after a settlement is a function of the response
  alone, the empty list or the list the response carries, so an error message is never
  shown over results kept from an earlier fetch.
\<close>

theorem fetchResults_failure_clears_results:
  "(requestResults r = Inl m \<longrightarrow>
      results (fetchResults_settle r st) = [] \<and>
      error (fetchResults_settle r st) = Some (if m = [] then ''Something went wrong.'' else m) \<and>
      error (fetchResults_settle r st) \<noteq> Some [] \<and>
      \<not> loading (fetchResults_settle r st) \<and>
      results (fetchResults st r) = [] \<and>
      error (fetchResults st r) = Some (if m = [] then ''Something went wrong.'' else m)) \<and>
   results (fetchResults_settle r st) =
     (case requestResults r of Inl m \<Rightarrow> [] | Inr d \<Rightarrow> the (p_results d))"
proof (intro conjI impI)
  assume f: "requestResults r = Inl m"
  show "results (fetchResults_settle r st) = []"
    by (simp add: fetchResults_settle_failure [OF f])
  show "error (fetchResults_settle r st) = Some (if m = [] then ''Something went wrong.'' else m)"
    by (simp add: fetchResults_settle_failure [OF f])
  show "error (fetchResults_settle r st) \<noteq> Some []"
    by (simp add: fetchResults_settle_failure [OF f])
  show "\<not> loading (fetchResults_settle r st)"
    by (simp add: fetchResults_settle_failure [OF f])
  show "results (fetchResults st r) = []"
    by (simp add: fetchResults_def fetchResults_settle_failure [OF f])
  show "error (fetchResults st r) = Some (if m = [] then ''Something went wrong.'' else m)"
    by (simp add: fetchResults_def fetchResults_settle_failure [OF f])
next
  show "results (fetchResults_settle r st) =
     (case requestResults r of Inl m \<Rightarrow> [] | Inr d \<Rightarrow> the (p_results d))"
    by (cases "requestResults r")
       (simp_all add: fetchResults_settle_failure fetchResults_settle_success)
qed

theorem fetchResults_failure_clears_results_witness:
  "requestResults (Response 503 (Malformed []) :: nat search_payload response) =
     Inl ''HTTP error! status: 503'' \<and>
   results listing = [1, 2, 3] \<and>
   results (fetchResults listing (Response 503 (Malformed []))) = [] \<and>
   error (fetchResults listing (Response 503 (Malformed []))) = Some ''HTTP error! status: 503''"
proof -
  have f: "requestResults (Response 503 (Malformed []) :: nat search_payload response) =
     Inl ''HTTP error! status: 503''"
    by (simp add: requestResults_def ok_def string_of_nat.simps digit_def)
  have l: "results listing = [1, 2, 3]" by (simp add: listing_def)
  from fetchResults_failure_clears_results
         [of "Response 503 (Malformed [])" "''HTTP error! status: 503''" listing] f l
  show ?thesis by simp
qed

lemma fetchResults_failure:
  assumes "requestResults r = Inl m"
  shows "fetchResults st r =
           st\<lparr>error := Some (if m = [] then ''Something went wrong.'' else m),
              results := [], loading := False\<rparr>"
  using fetchResults_settle_failure [OF assms, of "fetchResults_begin st"]
  by (simp add: fetchResults_def fetchResults_begin_def)

lemma image_fetchResults_failure:
  assumes "requestResults r = Inl m"
  shows "image_fetchResults st r =
           st\<lparr>img_error := Some (if m = [] then ''Something went wrong.'' else m),
              img_results := [], img_loading := False\<rparr>"
  using assms
  by (simp add: image_fetchResults_def image_fetchResults_begin_def
        image_fetchResults_settle_def truthy_orElse_Some)

lemma fetchPageContent_failure:
  assumes "requestContent r = Inl m"
  shows "fetchPageContent url st r =
           (st\<lparr>loadingContent := False\<rparr>, [''Failed to fetch page content: '' @ m])"
  using assms
  by (simp add: fetchPageContent_def fetchPageContent_begin_def fetchPageContent_settle_def)

text \<open>
  C5, as stated, fails for the content fetcher: after a failed content fetch (here a status
  of 500) the view state is what it was before the call, with no message in it; the
  message is passed to \<^verbatim>\<open>alert\<close>.
\<close>

theorem fetchPageContent_alert_counterexample:
  "fetchPageContent ''https://x.test/a'' (SearchResults_init ''google'' :: nat results_state)
     (Response 500 (Malformed [])) =
   (SearchResults_init ''google'', [''Failed to fetch page content: HTTP error! status: 500'']) \<and>
   error (fst (fetchPageContent ''https://x.test/a''
                 (SearchResults_init ''google'' :: nat results_state)
                 (Response 500 (Malformed [])))) = None"
proof -
  have "requestContent (Response 500 (Malformed [])) = Inl ''HTTP error! status: 500''"
    by (simp add: requestContent_def ok_def string_of_nat.simps digit_def)
  then show ?thesis
    by (simp add: fetchPageContent_failure) (simp add: SearchResults_init_def)
qed

text \<open>
  C5 (amended). Every failure of a result fetch, text or image, is caught and stored as
  the message of the panel's state, with the result list emptied and loading ended: for a
  status outside 200..299 the message is \<^verbatim>\<open>HTTP error! status: \<close> followed by the status;
  for a body that does not decode, or a rejected fetch, it is the error's message
  (\<^verbatim>\<open>Something went wrong.\<close> when that is empty); for a payload without a results array it
  is \<^verbatim>\<open>Unexpected data format from API\<close>; for a body that decodes to \<^verbatim>\<open>null\<close> it is the
  message of the error that reading \<^verbatim>\<open>results\<close> of \<^verbatim>\<open>null\<close> throws. The content fetcher
  catches its errors too (a status outside 200..299, a body that does not decode or
  decodes to \<^verbatim>\<open>null\<close>, a rejected fetch, a payload with an error and no content), but it
  reports them through \<^verbatim>\<open>alert\<close>, as
  \<^verbatim>\<open>Failed to fetch page content: \<close> followed by the message, and stores nothing in the
  view state beyond ending the content loading.
\<close>

theorem fetch_errors_reported:
  "(\<not> ok status \<longrightarrow>
      fetchResults st (Response status b) =
        st\<lparr>error := Some (''HTTP error! status: '' @ string_of_nat status),
           results := [], loading := False\<rparr> \<and>
      image_fetchResults ist (Response status b) =
        ist\<lparr>img_error := Some (''HTTP error! status: '' @ string_of_nat status),
            img_results := [], img_loading := False\<rparr> \<and>
      fetchPageContent url st (Response status cb) =
        (st\<lparr>loadingContent := False\<rparr>,
         [''Failed to fetch page content: HTTP error! status: '' @ string_of_nat status])) \<and>
   (ok status \<longrightarrow>
      fetchResults st (Response status (Malformed m)) =
        st\<lparr>error := Some (if m = [] then ''Something went wrong.'' else m),
           results := [], loading := False\<rparr> \<and>
      image_fetchResults ist (Response status (Malformed m)) =
        ist\<lparr>img_error := Some (if m = [] then ''Something went wrong.'' else m),
            img_results := [], img_loading := False\<rparr> \<and>
      fetchPageContent url st (Response status (Malformed m)) =
        (st\<lparr>loadingContent := False\<rparr>, [''Failed to fetch page content: '' @ m])) \<and>
   (ok status \<and> p_results d = None \<longrightarrow>
      fetchResults st (Response status (Decoded d)) =
        st\<lparr>error := Some ''Unexpected data format from API'', results := [], loading := False\<rparr> \<and>
      image_fetchResults ist (Response status (Decoded d)) =
        ist\<lparr>img_error := Some ''Unexpected data format from API'', img_results := [],
            img_loading := False\<rparr>) \<and>
   (ok status \<and> c_content cd = None \<and> c_error cd = Some e \<and> e \<noteq> [] \<longrightarrow>
      fetchPageContent url st (Response status (Decoded cd)) =
        (st\<lparr>loadingContent := False\<rparr>, [''Failed to fetch page content: '' @ e])) \<and>
   fetchResults st (Rejected m) =
     st\<lparr>error := Some (if m = [] then ''Something went wrong.'' else m),
        results := [], loading := False\<rparr> \<and>
   image_fetchResults ist (Rejected m) =
     ist\<lparr>img_error := Some (if m = [] then ''Something went wrong.'' else m),
         img_results := [], img_loading := False\<rparr> \<and>
   fetchPageContent url st (Rejected m) =
     (st\<lparr>loadingContent := False\<rparr>, [''Failed to fetch page content: '' @ m]) \<and>
   (ok status \<longrightarrow>
      fetchResults st (Response status DecodedNull) =
        st\<lparr>error := Some (nullReadMessage ''results''), results := [], loading := False\<rparr> \<and>
      image_fetchResults ist (Response status DecodedNull) =
        ist\<lparr>img_error := Some (nullReadMessage ''results''), img_results := [],
            img_loading := False\<rparr> \<and>
      fetchPageContent url st (Response status DecodedNull) =
        (st\<lparr>loadingContent := False\<rparr>,
         [''Failed to fetch page content: '' @ nullReadMessage ''content'']))"
proof (intro conjI impI)
  assume bad: "\<not> ok status"
  then have r: "requestResults (Response status b) =
                  Inl (''HTTP error! status: '' @ string_of_nat status)"
    by (simp add: requestResults_def)
  from bad have c: "requestContent (Response status cb) =
                  Inl (''HTTP error! status: '' @ string_of_nat status)"
    by (simp add: requestContent_def)
  show "fetchResults st (Response status b) =
        st\<lparr>error := Some (''HTTP error! status: '' @ string_of_nat status),
           results := [], loading := False\<rparr>"
    by (simp add: fetchResults_failure [OF r])
  show "image_fetchResults ist (Response status b) =
        ist\<lparr>img_error := Some (''HTTP error! status: '' @ string_of_nat status),
            img_results := [], img_loading := False\<rparr>"
    by (simp add: image_fetchResults_failure [OF r])
  show "fetchPageContent url st (Response status cb) =
        (st\<lparr>loadingContent := False\<rparr>,
         [''Failed to fetch page content: HTTP error! status: '' @ string_of_nat status])"
    by (simp add: fetchPageContent_failure [OF c])
next
  assume good: "ok status"
  then have r: "requestResults (Response status (Malformed m)) = Inl m"
    by (simp add: requestResults_def)
  from good have c: "requestContent (Response status (Malformed m)) = Inl m"
    by (simp add: requestContent_def)
  show "fetchResults st (Response status (Malformed m)) =
        st\<lparr>error := Some (if m = [] then ''Something went wrong.'' else m),
           results := [], loading := False\<rparr>"
    by (rule fetchResults_failure [OF r])
  show "image_fetchResults ist (Response status (Malformed m)) =
        ist\<lparr>img_error := Some (if m = [] then ''Something went wrong.'' else m),
            img_results := [], img_loading := False\<rparr>"
    by (rule image_fetchResults_failure [OF r])
  show "fetchPageContent url st (Response status (Malformed m)) =
        (st\<lparr>loadingContent := False\<rparr>, [''Failed to fetch page content: '' @ m])"
    by (rule fetchPageContent_failure [OF c])
next
  assume h: "ok status \<and> p_results d = None"
  then have r: "requestResults (Response status (Decoded d)) =
                  Inl ''Unexpected data format from API''"
    by (simp add: requestResults_def)
  show "fetchResults st (Response status (Decoded d)) =
        st\<lparr>error := Some ''Unexpected data format from API'', results := [], loading := False\<rparr>"
    by (simp add: fetchResults_failure [OF r])
  show "image_fetchResults ist (Response status (Decoded d)) =
        ist\<lparr>img_error := Some ''Unexpected data format from API'', img_results := [],
            img_loading := False\<rparr>"
    by (simp add: image_fetchResults_failure [OF r])
next
  assume h: "ok status \<and> c_content cd = None \<and> c_error cd = Some e \<and> e \<noteq> []"
  then have c: "requestContent (Response status (Decoded cd)) = Inl e"
    by (simp add: requestContent_def)
  show "fetchPageContent url st (Response status (Decoded cd)) =
        (st\<lparr>loadingContent := False\<rparr>, [''Failed to fetch page content: '' @ e])"
    by (rule fetchPageContent_failure [OF c])
next
  have c: "requestContent (Rejected m) = Inl m"
    by (simp add: requestContent_def)
  show "fetchResults st (Rejected m) =
     st\<lparr>error := Some (if m = [] then ''Something went wrong.'' else m),
        results := [], loading := False\<rparr>"
    by (rule fetchResults_failure) (simp add: requestResults_def)
  show "image_fetchResults ist (Rejected m) =
     ist\<lparr>img_error := Some (if m = [] then ''Something went wrong.'' else m),
         img_results := [], img_loading := False\<rparr>"
    by (rule image_fetchResults_failure) (simp add: requestResults_def)
  show "fetchPageContent url st (Rejected m) =
     (st\<lparr>loadingContent := False\<rparr>, [''Failed to fetch page content: '' @ m])"
    by (rule fetchPageContent_failure [OF c])
next
  assume good: "ok status"
  then have r: "requestResults (Response status DecodedNull) = Inl (nullReadMessage ''results'')"
    by (simp add: requestResults_def)
  from good have c: "requestContent (Response status DecodedNull) =
                       Inl (nullReadMessage ''content'')"
    by (simp add: requestContent_def)
  have ne: "nullReadMessage ''results'' \<noteq> []" by (simp add: nullReadMessage_def)
  show "fetchResults st (Response status DecodedNull) =
        st\<lparr>error := Some (nullReadMessage ''results''), results := [], loading := False\<rparr>"
    using ne by (simp add: fetchResults_failure [OF r])
  show "image_fetchResults ist (Response status DecodedNull) =
        ist\<lparr>img_error := Some (nullReadMessage ''results''), img_results := [],
            img_loading := False\<rparr>"
    using ne by (simp add: image_fetchResults_failure [OF r])
  show "fetchPageContent url st (Response status DecodedNull) =
        (st\<lparr>loadingContent := False\<rparr>,
         [''Failed to fetch page content: '' @ nullReadMessage ''content''])"
    by (rule fetchPageContent_failure [OF c])
qed

theorem fetch_errors_reported_witness:
  "\<not> ok 500 \<and> ok 200 \<and> p_results no_array = None \<and>
   c_content blocked = None \<and> c_error blocked = Some ''blocked by robots.txt'' \<and>
   ''blocked by robots.txt'' \<noteq> [] \<and>
   fetchResults listing (Response 500 (Malformed [])) =
     listing\<lparr>error := Some ''HTTP error! status: 500'', results := [], loading := False\<rparr> \<and>
   image_fetchResults image_listing (Response 500 (Malformed [])) =
     image_listing\<lparr>img_error := Some ''HTTP error! status: 500'', img_results := [],
                   img_loading := False\<rparr> \<and>
   fetchResults listing (Response 200 (Malformed ''Unexpected end of JSON input'')) =
     listing\<lparr>error := Some ''Unexpected end of JSON input'', results := [], loading := False\<rparr> \<and>
   fetchResults listing (Response 200 (Decoded no_array)) =
     listing\<lparr>error := Some ''Unexpected data format from API'', results := [],
             loading := False\<rparr> \<and>
   fetchPageContent ''https://x.test/a'' listing (Response 200 (Decoded blocked)) =
     (listing\<lparr>loadingContent := False\<rparr>,
      [''Failed to fetch page content: blocked by robots.txt'']) \<and>
   fetchResults listing (Response 200 DecodedNull) =
     listing\<lparr>error := Some (nullReadMessage ''results''), results := [], loading := False\<rparr>"
proof -
  have h: "\<not> ok 500" "ok 200" "p_results no_array = None" "c_content blocked = None"
    "c_error blocked = Some ''blocked by robots.txt''" "''blocked by robots.txt'' \<noteq> []"
    by (simp_all add: ok_def no_array_def blocked_def)
  have n: "string_of_nat 500 = ''500''"
    by (simp add: string_of_nat.simps digit_def)
  from fetch_errors_reported
         [of 500 listing "Malformed []" image_listing "''https://x.test/a''" "Malformed []"
             "[]" no_array blocked "''blocked by robots.txt''"] h
  have a: "fetchResults listing (Response 500 (Malformed [])) =
             listing\<lparr>error := Some (''HTTP error! status: '' @ string_of_nat 500),
                     results := [], loading := False\<rparr>"
    and b: "image_fetchResults image_listing (Response 500 (Malformed [])) =
     image_listing\<lparr>img_error := Some (''HTTP error! status: '' @ string_of_nat 500),
                   img_results := [], img_loading := False\<rparr>"
    by blast+
  from fetch_errors_reported
         [of 200 listing "Malformed []" image_listing "''https://x.test/a''" "Malformed []"
             "''Unexpected end of JSON input''" no_array blocked "''blocked by robots.txt''"] h
  have c: "fetchResults listing (Response 200 (Malformed ''Unexpected end of JSON input'')) =
     listing\<lparr>error := Some (if ''Unexpected end of JSON input'' = [] then ''Something went wrong.''
                           else ''Unexpected end of JSON input''),
             results := [], loading := False\<rparr>"
    and d: "fetchResults listing (Response 200 (Decoded no_array)) =
     listing\<lparr>error := Some ''Unexpected data format from API'', results := [],
             loading := False\<rparr>"
    and e: "fetchPageContent ''https://x.test/a'' listing (Response 200 (Decoded blocked)) =
     (listing\<lparr>loadingContent := False\<rparr>,
      [''Failed to fetch page content: '' @ ''blocked by robots.txt''])"
    and f: "fetchResults listing (Response 200 DecodedNull) =
     listing\<lparr>error := Some (nullReadMessage ''results''), results := [], loading := False\<rparr>"
    by blast+
  from h a b c d e f n show ?thesis by simp
qed

text \<open>
  C7. The URL requested for the query \<^verbatim>\<open>rust ownership\<close>, engine \<^verbatim>\<open>google\<close> and ten results
  carries the three query parameters, but it starts with \<^verbatim>\<open>http://https://\<close>: whatever the
  query, the engine and the count, the host of the text-search URL (and of the content
  URL) is \<^verbatim>\<open>https\<close>, not the host of the backend, while the image search, written the same
  way, addresses its backend's host.
\<close>

theorem searchUrl_host:
  "SearchResults_effect ''rust ownership'' 10 (SearchResults_init ''google'' :: nat results_state) =
     Some ''http://https://azizah.onrender.com/api/search/?query=rust%20ownership&search_engine=google&num_results=10'' \<and>
   url_host (searchUrl q e n) = Some ''https'' \<and>
   url_host (contentUrl u) = Some ''https'' \<and>
   url_host (imageSearchUrl q e n) = Some ''localhost''"
proof (intro conjI)
  show "SearchResults_effect ''rust ownership'' 10 (SearchResults_init ''google'' :: nat results_state) =
     Some ''http://https://azizah.onrender.com/api/search/?query=rust%20ownership&search_engine=google&num_results=10''"
    by (simp add: SearchResults_effect_def SearchResults_init_def searchUrl_def uriUnreserved_def
          percent_def hexDigit_def string_of_nat.simps digit_def)
  show "url_host (searchUrl q e n) = Some ''https''"
    by (simp add: url_host_def url_authority_def searchUrl_def)
  show "url_host (contentUrl u) = Some ''https''"
    by (simp add: url_host_def url_authority_def contentUrl_def)
  show "url_host (imageSearchUrl q e n) = Some ''localhost''"
    by (simp add: url_host_def url_authority_def imageSearchUrl_def)
qed

lemma run_snoc: "run (events @ [e]) st = step (run events st) e"
  by (simp add: run_def)

lemma content_settled_ok:
  assumes "ok status"
  shows "fst (step s (ContentSettled url (Response status (Decoded \<lparr>c_content = Some c, c_error = e\<rparr>)))) =
           (fst s)\<lparr>contentView := Some (url, orElse c ''No content extracted''),
                  loadingContent := False\<rparr>"
  using assms by (cases s) (simp add: fetchPageContent_settle_def requestContent_def)

text \<open>
  C8, as stated, fails: the content fetcher is called for \<^verbatim>\<open>https://x.test/a\<close> and then for
  \<^verbatim>\<open>https://x.test/b\<close>; the second request settles first; the content displayed in the end
  is that of the first URL.
\<close>

theorem content_stale_counterexample:
  "contentView (fst (run [ContentCalled ''https://x.test/a'', ContentCalled ''https://x.test/b'',
                          ContentSettled ''https://x.test/b'' (content_of ''text of b''),
                          ContentSettled ''https://x.test/a'' (content_of ''text of a'')]
                      (SearchResults_init ''google'' :: nat results_state))) =
     Some (''https://x.test/a'', ''text of a'') \<and>
   displayedContent (fst (run [ContentCalled ''https://x.test/a'', ContentCalled ''https://x.test/b'',
                          ContentSettled ''https://x.test/b'' (content_of ''text of b''),
                          ContentSettled ''https://x.test/a'' (content_of ''text of a'')]
                      (SearchResults_init ''google'' :: nat results_state))) \<noteq>
     Some (''https://x.test/b'', ''text of b'')"
  by (simp add: run_def content_of_def fetchPageContent_begin_def fetchPageContent_settle_def
        requestContent_def ok_def orElse_def displayedContent_def SearchResults_init_def)

text \<open>
  C8 (amended). No request identity is compared when a request settles: whatever happened
  before, a content request that settles with content puts its own URL and content in the
  overlay, and a settling text search puts its own outcome in the result list. So when the
  content fetcher is called for \<open>a\<close> and then for \<open>b\<close> before the first call settles, and
  both return content, the content displayed in the end is that of the call that settles
  last: that of \<open>b\<close> when \<open>a\<close> settles first, that of \<open>a\<close> when \<open>b\<close> settles first.
\<close>

theorem last_settlement_wins:
  "(ok status \<longrightarrow>
      contentView (fst (run (events @ [ContentSettled url
          (Response status (Decoded \<lparr>c_content = Some c, c_error = e\<rparr>))]) st)) =
        Some (url, orElse c ''No content extracted'') \<and>
      \<not> loadingContent (fst (run (events @ [ContentSettled url
          (Response status (Decoded \<lparr>c_content = Some c, c_error = e\<rparr>))]) st))) \<and>
   contentView (fst (run [ContentCalled a, ContentCalled b, ContentSettled a (content_of ta),
                          ContentSettled b (content_of tb)] st)) =
     Some (b, if tb = [] then ''No content extracted'' else tb) \<and>
   contentView (fst (run [ContentCalled a, ContentCalled b, ContentSettled b (content_of tb),
                          ContentSettled a (content_of ta)] st)) =
     Some (a, if ta = [] then ''No content extracted'' else ta) \<and>
   results (fst (run (events @ [ResultsSettled r]) st)) =
     (case requestResults r of Inl m \<Rightarrow> [] | Inr d \<Rightarrow> the (p_results d))"
proof (intro conjI impI)
  let ?r = "Response status (Decoded \<lparr>c_content = Some c, c_error = e\<rparr>)"
  assume good: "ok status"
  show "contentView (fst (run (events @ [ContentSettled url ?r]) st)) =
        Some (url, orElse c ''No content extracted'')"
    by (simp add: run_snoc content_settled_ok [OF good])
  show "\<not> loadingContent (fst (run (events @ [ContentSettled url ?r]) st))"
    by (simp add: run_snoc content_settled_ok [OF good])
next
  have good: "ok 200" by (simp add: ok_def)
  have "run [ContentCalled a, ContentCalled b, ContentSettled a (content_of ta),
             ContentSettled b (content_of tb)] st =
        step (run [ContentCalled a, ContentCalled b, ContentSettled a (content_of ta)] st)
             (ContentSettled b (content_of tb))"
    using run_snoc [of "[ContentCalled a, ContentCalled b, ContentSettled a (content_of ta)]"]
    by simp
  then show "contentView (fst (run [ContentCalled a, ContentCalled b,
                 ContentSettled a (content_of ta), ContentSettled b (content_of tb)] st)) =
     Some (b, if tb = [] then ''No content extracted'' else tb)"
    by (simp add: content_of_def content_settled_ok [OF good] orElse_def)
next
  have good: "ok 200" by (simp add: ok_def)
  have "run [ContentCalled a, ContentCalled b, ContentSettled b (content_of tb),
             ContentSettled a (content_of ta)] st =
        step (run [ContentCalled a, ContentCalled b, ContentSettled b (content_of tb)] st)
             (ContentSettled a (content_of ta))"
    using run_snoc [of "[ContentCalled a, ContentCalled b, ContentSettled b (content_of tb)]"]
    by simp
  then show "contentView (fst (run [ContentCalled a, ContentCalled b,
                 ContentSettled b (content_of tb), ContentSettled a (content_of ta)] st)) =
     Some (a, if ta = [] then ''No content extracted'' else ta)"
    by (simp add: content_of_def content_settled_ok [OF good] orElse_def)
next
  show "results (fst (run (events @ [ResultsSettled r]) st)) =
     (case requestResults r of Inl m \<Rightarrow> [] | Inr d \<Rightarrow> the (p_results d))"
  proof (cases "run events st")
    case (Pair st' alerts)
    then show ?thesis
      by (cases "requestResults r")
         (simp_all add: run_snoc fetchResults_settle_failure fetchResults_settle_success)
  qed
qed

theorem last_settlement_wins_witness:
  "ok 201 \<and>
   contentView (fst (run ([ContentCalled ''https://x.test/a'', ContentCalled ''https://x.test/b'',
                           ContentSettled ''https://x.test/b'' (content_of ''text of b'')] @
                          [ContentSettled ''https://x.test/a''
                             (Response 201 (Decoded \<lparr>c_content = Some (Some ''text of a''),
                                                      c_error = None\<rparr>))])
                      listing)) =
     Some (''https://x.test/a'', ''text of a'')"
proof -
  have good: "ok 201" by (simp add: ok_def)
  from last_settlement_wins
         [of 201 "[ContentCalled ''https://x.test/a'', ContentCalled ''https://x.test/b'',
                   ContentSettled ''https://x.test/b'' (content_of ''text of b'')]"
             "''https://x.test/a''" "Some ''text of a''" None listing] good
  have "contentView (fst (run ([ContentCalled ''https://x.test/a'', ContentCalled ''https://x.test/b'',
                           ContentSettled ''https://x.test/b'' (content_of ''text of b'')] @
                          [ContentSettled ''https://x.test/a''
                             (Response 201 (Decoded \<lparr>c_content = Some (Some ''text of a''),
                                                      c_error = None\<rparr>))])
                      listing)) =
     Some (''https://x.test/a'', orElse (Some ''text of a'') ''No content extracted'')"
    by blast
  with good show ?thesis by (simp add: orElse_def)
qed

section \<open>Properties of the markdown transform\<close>

lemma startsWith_stars_ext:
  "startsWith (c # x @ ''*'' @ rest) ''**'' = startsWith (c # x @ ''*'') ''**''"
  by (cases x) auto

lemma startsWith_stars_ext2:
  "startsWith (c # x @ ''**'' @ rest) ''**'' = startsWith (c # x @ ''*'') ''**''"
  using startsWith_stars_ext [of c x "CHR ''*'' # rest"] by simp

lemma closeBold_span:
  assumes "\<not> includes_str (x @ ''*'') ''**''" and "\<forall>c\<in>set x. \<not> isLineTerminator c"
  shows "closeBold (x @ ''**'' @ post) = Some (x, post)"
  using assms
proof (induction x)
  case Nil
  then show ?case by simp
next
  case (Cons c x)
  from Cons.prems(1) have ns: "\<not> startsWith (c # x @ ''*'') ''**''"
    and rest: "\<not> includes_str (x @ ''*'') ''**''"
    by simp_all
  from ns have "\<not> startsWith (c # x @ ''**'' @ post) ''**''"
    using startsWith_stars_ext2 [of c x post] by blast
  moreover have "closeBold (x @ ''**'' @ post) = Some (x, post)"
    using Cons.IH rest Cons.prems(2) by simp
  ultimately show ?case using Cons.prems(2) by simp
qed

lemma replaceBold_span:
  assumes "\<not> includes_str (pre @ ''*'') ''**''" and "\<not> includes_str (x @ ''*'') ''**''"
    and "\<forall>c\<in>set x. \<not> isLineTerminator c"
  shows "replaceBold (pre @ ''**'' @ x @ ''**'' @ post) =
           pre @ ''<strong>'' @ x @ ''</strong>'' @ replaceBold post"
  using assms(1)
proof (induction pre)
  case Nil
  have "closeBold (x @ ''**'' @ post) = Some (x, post)"
    using assms(2,3) by (rule closeBold_span)
  then show ?case by simp
next
  case (Cons c pre)
  from Cons.prems have ns: "\<not> startsWith (c # pre @ ''*'') ''**''"
    and rest: "\<not> includes_str (pre @ ''*'') ''**''"
    by simp_all
  from ns have "\<not> startsWith (c # pre @ ''**'' @ x @ ''**'' @ post) ''**''"
    using startsWith_stars_ext2 [of c pre "x @ ''**'' @ post"] by blast
  then show ?case using Cons.IH [OF rest] by (simp del: startsWith.simps)
qed

lemma replaceBold_plain: "\<not> includes_str t ''**'' \<Longrightarrow> replaceBold t = t"
  by (induction t) (auto simp del: startsWith.simps)

lemma replaceNewlines_append:
  "replaceNewlines (a @ b) = replaceNewlines a @ replaceNewlines b"
  by (induction a) simp_all

lemma replaceNewlines_line: "\<forall>c\<in>set x. \<not> isLineTerminator c \<Longrightarrow> replaceNewlines x = x"
  by (induction x) (simp_all add: isLineTerminator_def)

lemma replaceNewlines_concat:
  "replaceNewlines t = concat (map (\<lambda>c. if c = CHR 0x0A then ''<br/>'' else [c]) t)"
  by (induction t) simp_all

lemma fetchSummary_displays:
  assumes "backend r = Response status (Decoded d)" and "ok status"
    and "choice_content d = Some c" and "c \<noteq> []"
  shows "summary (fst (fetchSummary backend r st)) = renderMarkdown (trim c)"
proof -
  from assms have "requestSummary (backend r) = Inr (renderMarkdown (trim c))"
    by (simp add: requestSummary_def)
  then show ?thesis by (simp add: fetchSummary_success)
qed

lemma startsWith_takeWhile_star:
  "startsWith (takeWhile (\<lambda>ch. \<not> isLineTerminator ch) s) ''*'' = startsWith s ''*''"
  by (cases s) (auto simp: isLineTerminator_def)

lemma closeBold_None_iff:
  "closeBold s = None \<longleftrightarrow>
     \<not> includes_str (takeWhile (\<lambda>ch. \<not> isLineTerminator ch) s) ''**''"
proof (induction s)
  case Nil
  then show ?case by simp
next
  case (Cons c cs)
  show ?case
  proof (cases "startsWith (c # cs) ''**''")
    case True
    then obtain cs' where "c = CHR ''*''" "cs = CHR ''*'' # cs'"
      by (cases cs) auto
    then show ?thesis by (simp add: isLineTerminator_def)
  next
    case False
    show ?thesis
    proof (cases "isLineTerminator c")
      case True
      with False show ?thesis by simp
    next
      case nt: False
      have "startsWith (c # takeWhile (\<lambda>ch. \<not> isLineTerminator ch) cs) ''**'' =
            startsWith (c # cs) ''**''"
        using startsWith_takeWhile_star [of cs] by simp
      with False nt Cons.IH show ?thesis
        by (auto simp del: startsWith.simps split: option.splits)
    qed
  qed
qed

lemma closeBold_Some_D:
  "closeBold s = Some (x, post) \<Longrightarrow>
     s = x @ ''**'' @ post \<and> \<not> includes_str (x @ ''*'') ''**'' \<and>
     (\<forall>ch\<in>set x. \<not> isLineTerminator ch)"
proof (induction s arbitrary: x post)
  case Nil
  then show ?case by simp
next
  case (Cons c cs)
  show ?case
  proof (cases "startsWith (c # cs) ''**''")
    case True
    then obtain cs' where "c = CHR ''*''" "cs = CHR ''*'' # cs'"
      by (cases cs) auto
    with Cons.prems show ?thesis by simp
  next
    case False
    with Cons.prems obtain x' where nt: "\<not> isLineTerminator c"
      and rec: "closeBold cs = Some (x', post)" and x: "x = c # x'"
      by (auto simp del: startsWith.simps split: if_splits option.splits)
    from Cons.IH [OF rec] have cs: "cs = x' @ ''**'' @ post"
      and ni: "\<not> includes_str (x' @ ''*'') ''**''"
      and lt: "\<forall>ch\<in>set x'. \<not> isLineTerminator ch"
      by simp_all
    have "startsWith (c # x' @ ''*'') ''**'' = startsWith (c # cs) ''**''"
      using startsWith_stars_ext2 [of c x' post] cs by simp
    with False have "\<not> startsWith (c # x' @ ''*'') ''**''" by simp
    with ni have "\<not> includes_str (x @ ''*'') ''**''"
      using x by (simp del: startsWith.simps)
    with cs x nt lt show ?thesis by simp
  qed
qed

lemma replaceBold_unclosed:
  assumes "\<not> includes_str (pre @ ''*'') ''**''" and "closeBold rest = None"
  shows "replaceBold (pre @ ''**'' @ rest) = pre @ ''*'' @ replaceBold (''*'' @ rest)"
  using assms(1)
proof (induction pre)
  case Nil
  from assms(2) show ?case by simp
next
  case (Cons c pre)
  from Cons.prems have ns: "\<not> startsWith (c # pre @ ''*'') ''**''"
    and rest: "\<not> includes_str (pre @ ''*'') ''**''"
    by simp_all
  from ns have "\<not> startsWith (c # pre @ ''**'' @ rest) ''**''"
    using startsWith_stars_ext2 [of c pre rest] by blast
  then show ?case using Cons.IH [OF rest] by (simp del: startsWith.simps)
qed

lemma first_opener:
  "includes_str t ''**'' \<Longrightarrow>
     \<exists>pre rest. t = pre @ ''**'' @ rest \<and> \<not> includes_str (pre @ ''*'') ''**''"
proof (induction t)
  case Nil
  then show ?case by simp
next
  case (Cons c cs)
  show ?case
  proof (cases "startsWith (c # cs) ''**''")
    case True
    then obtain cs' where "c = CHR ''*''" "cs = CHR ''*'' # cs'"
      by (cases cs) auto
    then have "c # cs = [] @ ''**'' @ cs' \<and> \<not> includes_str ([] @ ''*'') ''**''" by simp
    then show ?thesis by blast
  next
    case False
    with Cons.prems have "includes_str cs ''**''" by (simp del: startsWith.simps)
    from Cons.IH [OF this] obtain pre rest where cs: "cs = pre @ ''**'' @ rest"
      and ni: "\<not> includes_str (pre @ ''*'') ''**''" by blast
    have "startsWith (c # pre @ ''*'') ''**'' = startsWith (c # cs) ''**''"
      using startsWith_stars_ext2 [of c pre rest] cs by simp
    with False ni have "\<not> includes_str ((c # pre) @ ''*'') ''**''"
      by (simp del: startsWith.simps)
    moreover from cs have "c # cs = (c # pre) @ ''**'' @ rest" by simp
    ultimately show ?thesis by blast
  qed
qed

lemma renderMarkdown_closed:
  assumes "\<not> includes_str (pre @ ''*'') ''**''" and "\<not> includes_str (x @ ''*'') ''**''"
    and "\<forall>ch\<in>set x. \<not> isLineTerminator ch"
  shows "renderMarkdown (pre @ ''**'' @ x @ ''**'' @ post) =
           replaceNewlines pre @ ''<strong>'' @ x @ ''</strong>'' @ renderMarkdown post"
  using replaceBold_span [OF assms, of post] replaceNewlines_line [OF assms(3)]
  by (simp add: renderMarkdown_def replaceNewlines_append)

lemma renderMarkdown_unclosed:
  assumes "\<not> includes_str (pre @ ''*'') ''**''"
    and "\<not> includes_str (takeWhile (\<lambda>ch. \<not> isLineTerminator ch) rest) ''**''"
  shows "renderMarkdown (pre @ ''**'' @ rest) =
           replaceNewlines pre @ ''*'' @ renderMarkdown (''*'' @ rest)"
proof -
  from assms(2) have "closeBold rest = None" by (simp add: closeBold_None_iff)
  from replaceBold_unclosed [OF assms(1) this] show ?thesis
    by (simp add: renderMarkdown_def replaceNewlines_append)
qed

lemma renderMarkdown_plain: "\<not> includes_str t ''**'' \<Longrightarrow> renderMarkdown t = replaceNewlines t"
  by (simp add: renderMarkdown_def replaceBold_plain)

lemma renderMarkdown_determined:
  assumes plain: "\<forall>u. \<not> includes_str u ''**'' \<longrightarrow> f u = replaceNewlines u"
    and closed: "\<forall>p y q. \<not> includes_str (p @ ''*'') ''**'' \<and> \<not> includes_str (y @ ''*'') ''**'' \<and>
                   (\<forall>ch\<in>set y. \<not> isLineTerminator ch) \<longrightarrow>
                   f (p @ ''**'' @ y @ ''**'' @ q) =
                     replaceNewlines p @ ''<strong>'' @ y @ ''</strong>'' @ f q"
    and unclosed: "\<forall>p q. \<not> includes_str (p @ ''*'') ''**'' \<and>
                   \<not> includes_str (takeWhile (\<lambda>ch. \<not> isLineTerminator ch) q) ''**'' \<longrightarrow>
                   f (p @ ''**'' @ q) = replaceNewlines p @ ''*'' @ f (''*'' @ q)"
  shows "f t = renderMarkdown t"
proof (induction t rule: length_induct)
  case (1 t)
  show ?case
  proof (cases "includes_str t ''**''")
    case False
    with plain show ?thesis by (simp add: renderMarkdown_plain)
  next
    case True
    from first_opener [OF True] obtain pre rest where t: "t = pre @ ''**'' @ rest"
      and pre: "\<not> includes_str (pre @ ''*'') ''**''" by blast
    show ?thesis
    proof (cases "closeBold rest")
      case None
      then have nc: "\<not> includes_str (takeWhile (\<lambda>ch. \<not> isLineTerminator ch) rest) ''**''"
        by (simp add: closeBold_None_iff)
      have "length (''*'' @ rest) < length t" using t by simp
      with "1.IH" have "f (''*'' @ rest) = renderMarkdown (''*'' @ rest)" by blast
      moreover from unclosed pre nc
      have "f (pre @ ''**'' @ rest) = replaceNewlines pre @ ''*'' @ f (''*'' @ rest)" by blast
      ultimately show ?thesis
        using renderMarkdown_unclosed [OF pre nc] t by simp
    next
      case (Some a)
      obtain x post where a: "a = (x, post)" by (cases a)
      from closeBold_Some_D [of rest x post] Some a
      have rest: "rest = x @ ''**'' @ post" and x: "\<not> includes_str (x @ ''*'') ''**''"
        and lt: "\<forall>ch\<in>set x. \<not> isLineTerminator ch"
        by simp_all
      have "length post < length t" using t rest by simp
      with "1.IH" have "f post = renderMarkdown post" by blast
      moreover from closed pre x lt
      have "f (pre @ ''**'' @ x @ ''**'' @ post) =
              replaceNewlines pre @ ''<strong>'' @ x @ ''</strong>'' @ f post" by blast
      ultimately show ?thesis
        using renderMarkdown_closed [OF pre x lt, of post] t rest by simp
    qed
  qed
qed

text \<open>
  C6, as stated, fails where a bold span crosses a line break: for the completion text
  \<^verbatim>\<open>**a\<close>, newline, \<^verbatim>\<open>b**\<close> the summary displayed keeps both pairs of stars; only the newline
  is replaced.
\<close>

theorem renderMarkdown_multiline_counterexample:
  "summary (fst (fetchSummary
      (\<lambda>k. Response 200 (Decoded \<lparr>error_message = None,
                                   choice_content = Some (''**a'' @ [CHR 0x0A] @ ''b**'')\<rparr>))
      0 (AiSummary_init 0))) = ''**a<br/>b**'' \<and>
   renderMarkdown (trim (''**a'' @ [CHR 0x0A] @ ''b**'')) \<noteq> ''<strong>a<br/>b</strong>''"
proof -
  have t: "trim (''**a'' @ [CHR 0x0A] @ ''b**'') = ''**a'' @ [CHR 0x0A] @ ''b**''"
    by (simp add: trim_def isWhiteSpace_def)
  have r: "renderMarkdown (''**a'' @ [CHR 0x0A] @ ''b**'') = ''**a<br/>b**''"
    by (simp add: renderMarkdown_def isLineTerminator_def)
  have "summary (fst (fetchSummary
      (\<lambda>k. Response 200 (Decoded \<lparr>error_message = None,
                                   choice_content = Some (''**a'' @ [CHR 0x0A] @ ''b**'')\<rparr>))
      0 (AiSummary_init 0))) = renderMarkdown (trim (''**a'' @ [CHR 0x0A] @ ''b**''))"
    using fetchSummary_displays
            [of "\<lambda>k. Response 200 (Decoded \<lparr>error_message = None,
                                   choice_content = Some (''**a'' @ [CHR 0x0A] @ ''b**'')\<rparr>)"
                0 200 "\<lparr>error_message = None,
                         choice_content = Some (''**a'' @ [CHR 0x0A] @ ''b**'')\<rparr>"
                "''**a'' @ [CHR 0x0A] @ ''b**''" "AiSummary_init 0"]
    by (simp add: ok_def)
  with t r show ?thesis by simp
qed

text \<open>
  C6 (amended). The summary displayed for a completion text is \<open>renderMarkdown\<close> of the
  trimmed text, which reads the text from the left. The text before the first \<^verbatim>\<open>**\<close> is
  kept. If that \<^verbatim>\<open>**\<close> is followed, before any line terminator, by a further \<^verbatim>\<open>**\<close>, then
  the two and the text \<open>x\<close> between them, up to the nearest such \<^verbatim>\<open>**\<close>, are replaced by \<open>x\<close>
  between \<^verbatim>\<open><strong>\<close> and \<^verbatim>\<open></strong>\<close>, and reading goes on after them. If it is not, its
  first star is kept and reading goes on from its second star. A text without \<^verbatim>\<open>**\<close> keeps
  its characters. In what is kept every newline is replaced by \<^verbatim>\<open><br/>\<close>, each other
  character standing for itself. These rules fix the result: a function that obeys them
  is \<open>renderMarkdown\<close>.
\<close>

theorem renderMarkdown_spans:
  "(ok status \<and> choice_content d = Some c \<and> c \<noteq> [] \<longrightarrow>
      summary (fst (fetchSummary (\<lambda>k. Response status (Decoded d)) r st)) =
        renderMarkdown (trim c)) \<and>
   (\<not> includes_str (pre @ ''*'') ''**'' \<and> \<not> includes_str (x @ ''*'') ''**'' \<and>
    (\<forall>ch\<in>set x. \<not> isLineTerminator ch) \<longrightarrow>
      renderMarkdown (pre @ ''**'' @ x @ ''**'' @ post) =
        replaceNewlines pre @ ''<strong>'' @ x @ ''</strong>'' @ renderMarkdown post) \<and>
   (\<not> includes_str t ''**'' \<longrightarrow> renderMarkdown t = replaceNewlines t) \<and>
   replaceNewlines t = concat (map (\<lambda>c. if c = CHR 0x0A then ''<br/>'' else [c]) t) \<and>
   (\<not> includes_str (pre @ ''*'') ''**'' \<and>
    \<not> includes_str (takeWhile (\<lambda>ch. \<not> isLineTerminator ch) rest) ''**'' \<longrightarrow>
      renderMarkdown (pre @ ''**'' @ rest) =
        replaceNewlines pre @ ''*'' @ renderMarkdown (''*'' @ rest)) \<and>
   ((\<forall>u. \<not> includes_str u ''**'' \<longrightarrow> f u = replaceNewlines u) \<and>
    (\<forall>p y q. \<not> includes_str (p @ ''*'') ''**'' \<and> \<not> includes_str (y @ ''*'') ''**'' \<and>
       (\<forall>ch\<in>set y. \<not> isLineTerminator ch) \<longrightarrow>
       f (p @ ''**'' @ y @ ''**'' @ q) =
         replaceNewlines p @ ''<strong>'' @ y @ ''</strong>'' @ f q) \<and>
    (\<forall>p q. \<not> includes_str (p @ ''*'') ''**'' \<and>
       \<not> includes_str (takeWhile (\<lambda>ch. \<not> isLineTerminator ch) q) ''**'' \<longrightarrow>
       f (p @ ''**'' @ q) = replaceNewlines p @ ''*'' @ f (''*'' @ q)) \<longrightarrow>
    f t = renderMarkdown t)"
proof (intro conjI impI)
  assume "ok status \<and> choice_content d = Some c \<and> c \<noteq> []"
  then show "summary (fst (fetchSummary (\<lambda>k. Response status (Decoded d)) r st)) =
        renderMarkdown (trim c)"
    using fetchSummary_displays [of "\<lambda>k. Response status (Decoded d)" r status d c st] by simp
next
  assume "\<not> includes_str (pre @ ''*'') ''**'' \<and> \<not> includes_str (x @ ''*'') ''**'' \<and>
    (\<forall>ch\<in>set x. \<not> isLineTerminator ch)"
  then show "renderMarkdown (pre @ ''**'' @ x @ ''**'' @ post) =
        replaceNewlines pre @ ''<strong>'' @ x @ ''</strong>'' @ renderMarkdown post"
    using renderMarkdown_closed [of pre x post] by blast
next
  assume "\<not> includes_str t ''**''"
  then show "renderMarkdown t = replaceNewlines t"
    by (rule renderMarkdown_plain)
next
  show "replaceNewlines t = concat (map (\<lambda>c. if c = CHR 0x0A then ''<br/>'' else [c]) t)"
    by (rule replaceNewlines_concat)
next
  assume "\<not> includes_str (pre @ ''*'') ''**'' \<and>
    \<not> includes_str (takeWhile (\<lambda>ch. \<not> isLineTerminator ch) rest) ''**''"
  then show "renderMarkdown (pre @ ''**'' @ rest) =
        replaceNewlines pre @ ''*'' @ renderMarkdown (''*'' @ rest)"
    using renderMarkdown_unclosed [of pre rest] by blast
next
  assume laws: "(\<forall>u. \<not> includes_str u ''**'' \<longrightarrow> f u = replaceNewlines u) \<and>
    (\<forall>p y q. \<not> includes_str (p @ ''*'') ''**'' \<and> \<not> includes_str (y @ ''*'') ''**'' \<and>
       (\<forall>ch\<in>set y. \<not> isLineTerminator ch) \<longrightarrow>
       f (p @ ''**'' @ y @ ''**'' @ q) =
         replaceNewlines p @ ''<strong>'' @ y @ ''</strong>'' @ f q) \<and>
    (\<forall>p q. \<not> includes_str (p @ ''*'') ''**'' \<and>
       \<not> includes_str (takeWhile (\<lambda>ch. \<not> isLineTerminator ch) q) ''**'' \<longrightarrow>
       f (p @ ''**'' @ q) = replaceNewlines p @ ''*'' @ f (''*'' @ q))"
  show "f t = renderMarkdown t"
    by (rule renderMarkdown_determined) (use laws in blast)+
qed

theorem renderMarkdown_spans_witness:
  "ok 200 \<and>
   summary (fst (fetchSummary
      (\<lambda>k. Response 200 (Decoded \<lparr>error_message = None,
                                   choice_content = Some '' **Rust** is fast. ''\<rparr>))
      0 (AiSummary_init 0))) = ''<strong>Rust</strong> is fast.'' \<and>
   renderMarkdown (''It is '' @ ''**'' @ ''safe'' @ ''**'' @ [CHR 0x0A]) =
     ''It is <strong>safe</strong><br/>'' \<and>
   renderMarkdown ([] @ ''**'' @ (''a'' @ [CHR 0x0A] @ ''**b**'')) =
     ''**a<br/><strong>b</strong>'' \<and>
   replaceNewlines (replaceBold ''**a**'') = renderMarkdown ''**a**''"
proof -
  let ?d = "\<lparr>error_message = None, choice_content = Some '' **Rust** is fast. ''\<rparr>"
  note spans = renderMarkdown_spans [where status = 200 and d = ?d and r = 0
                                       and st = "AiSummary_init 0"]
  have good: "ok 200" by (simp add: ok_def)
  have tr: "trim '' **Rust** is fast. '' = [] @ ''**'' @ ''Rust'' @ ''**'' @ '' is fast.''"
    by (simp add: trim_def isWhiteSpace_def)
  have "summary (fst (fetchSummary (\<lambda>k. Response 200 (Decoded ?d)) 0 (AiSummary_init 0))) =
          renderMarkdown (trim '' **Rust** is fast. '')"
    using spans [where c = "'' **Rust** is fast. ''"] good by simp
  moreover have "renderMarkdown ([] @ ''**'' @ ''Rust'' @ ''**'' @ '' is fast.'') =
          replaceNewlines [] @ ''<strong>'' @ ''Rust'' @ ''</strong>'' @
          renderMarkdown '' is fast.''"
    using spans [where pre = "[]" and x = "''Rust''" and post = "'' is fast.''"]
    by (simp add: isLineTerminator_def)
  moreover have "renderMarkdown '' is fast.'' = replaceNewlines '' is fast.''"
    using spans [where t = "'' is fast.''"] by simp
  ultimately have first: "summary (fst (fetchSummary (\<lambda>k. Response 200 (Decoded ?d)) 0
                             (AiSummary_init 0))) = ''<strong>Rust</strong> is fast.''"
    using tr by simp
  have "renderMarkdown (''It is '' @ ''**'' @ ''safe'' @ ''**'' @ [CHR 0x0A]) =
          replaceNewlines ''It is '' @ ''<strong>'' @ ''safe'' @ ''</strong>'' @
          renderMarkdown [CHR 0x0A]"
    using spans [where pre = "''It is ''" and x = "''safe''" and post = "[CHR 0x0A]"]
    by (simp add: isLineTerminator_def)
  moreover have "renderMarkdown [CHR 0x0A] = replaceNewlines [CHR 0x0A]"
    using spans [where t = "[CHR 0x0A]"] by simp
  ultimately have second: "renderMarkdown (''It is '' @ ''**'' @ ''safe'' @ ''**'' @ [CHR 0x0A]) =
     ''It is <strong>safe</strong><br/>''"
    by simp
  have "renderMarkdown ([] @ ''**'' @ (''a'' @ [CHR 0x0A] @ ''**b**'')) =
          replaceNewlines [] @ ''*'' @ renderMarkdown (''*'' @ (''a'' @ [CHR 0x0A] @ ''**b**''))"
    using spans [where pre = "[]" and rest = "''a'' @ [CHR 0x0A] @ ''**b**''"]
    by (simp add: isLineTerminator_def)
  moreover have "renderMarkdown ((''*a'' @ [CHR 0x0A]) @ ''**'' @ ''b'' @ ''**'' @ []) =
          replaceNewlines (''*a'' @ [CHR 0x0A]) @ ''<strong>'' @ ''b'' @ ''</strong>'' @
          renderMarkdown []"
    using spans [where pre = "''*a'' @ [CHR 0x0A]" and x = "''b''" and post = "[]"]
    by (simp add: isLineTerminator_def)
  moreover have "renderMarkdown [] = replaceNewlines []"
    using spans [where t = "[]"] by simp
  ultimately have third: "renderMarkdown ([] @ ''**'' @ (''a'' @ [CHR 0x0A] @ ''**b**'')) =
     ''**a<br/><strong>b</strong>''"
    by simp
  have "(\<forall>u. \<not> includes_str u ''**'' \<longrightarrow> replaceNewlines (replaceBold u) = replaceNewlines u) \<and>
    (\<forall>p y q. \<not> includes_str (p @ ''*'') ''**'' \<and> \<not> includes_str (y @ ''*'') ''**'' \<and>
       (\<forall>ch\<in>set y. \<not> isLineTerminator ch) \<longrightarrow>
       replaceNewlines (replaceBold (p @ ''**'' @ y @ ''**'' @ q)) =
         replaceNewlines p @ ''<strong>'' @ y @ ''</strong>'' @ replaceNewlines (replaceBold q)) \<and>
    (\<forall>p q. \<not> includes_str (p @ ''*'') ''**'' \<and>
       \<not> includes_str (takeWhile (\<lambda>ch. \<not> isLineTerminator ch) q) ''**'' \<longrightarrow>
       replaceNewlines (replaceBold (p @ ''**'' @ q)) =
         replaceNewlines p @ ''*'' @ replaceNewlines (replaceBold (''*'' @ q)))"
    using renderMarkdown_plain renderMarkdown_closed renderMarkdown_unclosed
    unfolding renderMarkdown_def by blast
  with spans [where f = "\<lambda>u. replaceNewlines (replaceBold u)" and t = "''**a**''"]
  have fourth: "replaceNewlines (replaceBold ''**a**'') = renderMarkdown ''**a**''"
    by blast
  from good first second third fourth show ?thesis by blast
qed

end
